theory Spec2Isabelle
  imports Main "HOL-Library.Word"
begin

section \<open>solenoidBox.ino: data model\<close>

text \<open>
  The firmware is a set of C++ functions over global variables. The model threads one
  record of those globals (and of the function-local \<open>static\<close> variables) through every
  function, and records each call of a collaborator that lives outside the file
  (solenoid driver, logger, cloud publish, GPIO) as an entry of a trace, in call order.
\<close>

type_synonym millis_t = "32 word"  \<comment> \<open>\<open>unsigned long\<close> on the target\<close>

datatype level = LOW | HIGH

datatype pin = ONBOARD_LED_PIN | READY_LED | ADMIT_LED | REJECT_LED

datatype effect =
    TripSolenoid
  | LogToDB string string int string string
  | DebugEvent string
  | Publish string string
  | DigitalWrite pin level
  | BuzzerGoodBeepOnce

text \<open>The persisted identity record \<open>EEPROMdata\<close> (declared in mnutils.h).\<close>

record EEPROMdata_t =
  deviceType :: int
  lockListenType :: int

text \<open>The station configuration \<open>g_stationConfig\<close> (declared in mnutils.h); the fields
  are the ones \<open>clearStationConfig\<close> assigns.\<close>

record StationConfig =
  isValid :: bool
  cfgDeviceType :: int
  deviceName :: string
  LCDName :: string
  photoDisplay :: string
  logEvent :: string
  OKKeywords :: string

datatype llbxState = llbxINIT | llbxWAITFOREVENTDATA | llbxERROR

datatype mlsState =
  mlsASKFORSTATIONCONFIG | mlsWAITFORSTATIONCONFIG | mlsDEVICELOOP | mlsERROR

record firmware =
  mg_checkinEventData :: string
  EEPROMdata :: EEPROMdata_t          \<comment> \<open>the in-memory copy\<close>
  eeprom :: EEPROMdata_t              \<comment> \<open>the durable copy\<close>
  g_stationConfig :: StationConfig
  JSONParseError :: string
  allowDebugToPublish :: millis_t
  rebootTime :: millis_t              \<comment> \<open>\<open>static\<close> of \<open>rebootSet\<close>\<close>
  lastBlinkTimeD7 :: millis_t         \<comment> \<open>\<open>static\<close> of \<open>heartbeatLEDs\<close>\<close>
  ledState :: level                   \<comment> \<open>\<open>static\<close> of \<open>heartbeatLEDs\<close>\<close>
  llbxloopState :: llbxState          \<comment> \<open>\<open>static\<close> of \<open>loopLockbox\<close>\<close>
  mainloopState :: mlsState           \<comment> \<open>\<open>static\<close> of \<open>loop\<close>\<close>
  processStart :: millis_t            \<comment> \<open>\<open>static\<close> of \<open>loop\<close>\<close>
  trace :: "effect list"

subsection \<open>Library functions and constants the file takes from outside\<close>

text \<open>
  The JSON reader (ArduinoJson), \<open>String::toInt\<close>, the device id and the constants of
  rfidkeys.h and mnutils.h are not part of the file. The model takes them as one
  parameter \<open>ext\<close>; every theorem below holds for all of them. \<open>'doc\<close> is the
  library's document type.
  \<^item> \<open>deserializeJson\<close>: the error code and the document read from a buffer;
  \<^item> \<open>as_int d k\<close>: \<open>int x = d[k]\<close> and \<open>d[k].as<int>()\<close>;
  \<^item> \<open>eq_int d k n\<close>: the comparison \<open>d[k] == n\<close>;
  \<^item> \<open>as_str d k\<close>: \<open>String x = d[k].as<char*>()\<close>;
  \<^item> \<open>elem0 d\<close>: \<open>JsonObject root_0 = d[0]\<close>.
\<close>

datatype DeserializationError =
  Ok | IncompleteInput | InvalidInput | NoMemory | NotSupported | TooDeep

fun c_str :: "DeserializationError \<Rightarrow> string" where
  "c_str Ok = ''Ok''"
| "c_str IncompleteInput = ''IncompleteInput''"
| "c_str InvalidInput = ''InvalidInput''"
| "c_str NoMemory = ''NoMemory''"
| "c_str NotSupported = ''NotSupported''"
| "c_str TooDeep = ''TooDeep''"

record 'doc externals =
  deserializeJson :: "string \<Rightarrow> DeserializationError \<times> 'doc"
  as_int :: "'doc \<Rightarrow> string \<Rightarrow> int"
  eq_int :: "'doc \<Rightarrow> string \<Rightarrow> int \<Rightarrow> bool"
  as_str :: "'doc \<Rightarrow> string \<Rightarrow> string"
  elem0 :: "'doc \<Rightarrow> 'doc"
  toInt :: "string \<Rightarrow> int"
  deviceID :: string
  checkinEventSecret :: int
  DEVICETYPE_UNDEFINED :: int
  DEVICETYPE_CHECKIN :: int

subsection \<open>Collaborators, recorded in the trace\<close>

definition emit :: "effect \<Rightarrow> firmware \<Rightarrow> firmware" where
  "emit e s = s\<lparr>trace := trace s @ [e]\<rparr>"

definition tripSolenoid :: "firmware \<Rightarrow> firmware" where
  "tripSolenoid = emit TripSolenoid"

definition logToDB :: "string \<Rightarrow> string \<Rightarrow> int \<Rightarrow> string \<Rightarrow> string \<Rightarrow> firmware \<Rightarrow> firmware" where
  "logToDB a b c d e = emit (LogToDB a b c d e)"

definition debugEvent :: "string \<Rightarrow> firmware \<Rightarrow> firmware" where
  "debugEvent m = emit (DebugEvent m)"

definition digitalWrite :: "pin \<Rightarrow> level \<Rightarrow> firmware \<Rightarrow> firmware" where
  "digitalWrite p v = emit (DigitalWrite p v)"

definition buzzerGoodBeepOnce :: "firmware \<Rightarrow> firmware" where
  "buzzerGoodBeepOnce = emit BuzzerGoodBeepOnce"

definition Particle_publish :: "string \<Rightarrow> string \<Rightarrow> firmware \<Rightarrow> firmware" where
  "Particle_publish name data = emit (Publish name data)"

text \<open>Modelled from the spec: \<open>EEPROMWrite\<close> (mnutils, not in the file) stores the
  in-memory identity record in durable storage ("written synchronously whenever
  changed"; the call site says "push the new devtype into EEPROM").\<close>

definition EEPROMWrite :: "firmware \<Rightarrow> firmware" where
  "EEPROMWrite s = s\<lparr>eeprom := EEPROMdata s\<rparr>"

text \<open>Modelled from the spec: \<open>setStationConfig\<close> (mnutils, not in the file) replaces the
  station configuration by the values given and sets \<open>isValid\<close>. The argument order is
  the one of the call in \<open>fdbReceiveStationConfig\<close>.\<close>

definition setStationConfig ::
  "int \<Rightarrow> string \<Rightarrow> string \<Rightarrow> string \<Rightarrow> string \<Rightarrow> string \<Rightarrow> firmware \<Rightarrow> firmware" where
  "setStationConfig devType dName lcd logEv photo keywords s =
     s\<lparr>g_stationConfig :=
         \<lparr>isValid = True, cfgDeviceType = devType, deviceName = dName, LCDName = lcd,
          photoDisplay = photo, logEvent = logEv, OKKeywords = keywords\<rparr>\<rparr>"

subsection \<open>String helpers\<close>

text \<open>\<open>String(int)\<close>: the decimal numeral, with a minus sign for negative values.\<close>

definition digit_char :: "int \<Rightarrow> char" where
  "digit_char d = ''0123456789'' ! nat d"

function digits :: "int \<Rightarrow> string" where
  "digits n =
     (if n < 10 then [digit_char n]
      else digits (n div 10) @ [digit_char (n mod 10)])"
  by pat_completeness auto
termination
  by (relation "measure nat") auto

declare digits.simps [simp del]

definition String_int :: "int \<Rightarrow> string" where
  "String_int i = (if i < 0 then CHR ''-'' # digits (- i) else digits i)"

text \<open>\<open>strcpy_safe\<close> on a buffer of \<open>charCount\<close> bytes: \<open>strncpy\<close> of at most
  \<open>charCount\<close> bytes, then a terminator in the last byte, so that the buffer holds the
  first \<open>charCount - 1\<close> bytes of the source as a C string.\<close>

definition strcpy_safe :: "nat \<Rightarrow> string \<Rightarrow> string" where
  "strcpy_safe charCount pSrc = take (charCount - 1) pSrc"

text \<open>\<open>String::indexOf\<close>: the first position of a substring, or \<open>-1\<close>.\<close>

fun indexOf_from :: "int \<Rightarrow> string \<Rightarrow> string \<Rightarrow> int" where
  "indexOf_from i [] pat = (if pat = [] then i else -1)"
| "indexOf_from i (c # cs) pat =
     (if take (length pat) (c # cs) = pat then i else indexOf_from (i + 1) cs pat)"

definition indexOf :: "string \<Rightarrow> string \<Rightarrow> int" where
  "indexOf str pat = indexOf_from 0 str pat"

section \<open>The checkin validator\<close>

definition eventcheckin :: "'doc externals \<Rightarrow> string \<Rightarrow> firmware \<Rightarrow> firmware" where
  "eventcheckin ext data s =
     (let temp = strcpy_safe 1000 data;
          (err, docJSON) = deserializeJson ext temp;
          s1 = s\<lparr>JSONParseError := c_str err\<rparr>
      in if err = Ok then
           (let secret = as_int ext docJSON ''secret'' in
            if secret \<noteq> checkinEventSecret ext then
              debugEvent (''received checkin with bad secret:'' @ String_int secret) s1
            else if eq_int ext docJSON ''deviceType'' (lockListenType (EEPROMdata s1)) then
              debugEvent
                (''Unlocking based on checkin of devType: ''
                   @ String_int (deviceType (EEPROMdata s1)))
                (logToDB ''Unlock''
                   (''Unlocking based on checkin of devType: ''
                      @ String_int (deviceType (EEPROMdata s1)))
                   0 '''' '''' (tripSolenoid s1))
            else
              debugEvent ''received checkin event, not my devType'' s1)
         else
           debugEvent (''checkin event JSON parse error. '' @ temp) s1)"

section \<open>The checkin buffer\<close>

text \<open>An entry point reads the clock once: \<open>now\<close> stands for every \<open>millis()\<close> of one
  call.\<close>

definition particleCallbackEventCheckin ::
  "millis_t \<Rightarrow> string \<Rightarrow> string \<Rightarrow> firmware \<Rightarrow> firmware" where
  "particleCallbackEventCheckin t event data s =
     (let s1 = s\<lparr>allowDebugToPublish := t + 20000\<rparr>;
          eventName = event;
          s2 = (if indexOf eventName ''checkin'' \<ge> 0 then
                  (if length (mg_checkinEventData s1) > 0 then
                     debugEvent ''checkin buffer overrun'' s1
                   else s1\<lparr>mg_checkinEventData := data\<rparr>)
                else s1)
      in s2\<lparr>allowDebugToPublish := t + 500\<rparr>)"

definition loopLockbox :: "'doc externals \<Rightarrow> firmware \<Rightarrow> firmware" where
  "loopLockbox ext s =
     (case llbxloopState s of
        llbxINIT \<Rightarrow> s\<lparr>llbxloopState := llbxWAITFOREVENTDATA\<rparr>
      | llbxWAITFOREVENTDATA \<Rightarrow>
          (if length (mg_checkinEventData s) > 0 then
             (eventcheckin ext (mg_checkinEventData s) s)\<lparr>mg_checkinEventData := ''''\<rparr>
           else s)
      | llbxERROR \<Rightarrow> s)"

section \<open>The reboot manager and the remote operations\<close>

text \<open>\<open>System.reset()\<close> does not return: the device restarts and every variable is
  initialised again. A function that can reach it returns \<open>None\<close> there.\<close>

definition rebootSet :: "millis_t \<Rightarrow> int \<Rightarrow> firmware \<Rightarrow> firmware option" where
  "rebootSet t millisecondsToWait s =
     (if millisecondsToWait > 0 then
        Some (s\<lparr>rebootTime := t + word_of_int millisecondsToWait\<rparr>)
      else if t > rebootTime s then None
      else Some s)"

definition cloudSetDeviceType ::
  "'doc externals \<Rightarrow> millis_t \<Rightarrow> string \<Rightarrow> firmware \<Rightarrow> (int \<times> firmware) option" where
  "cloudSetDeviceType ext t data s =
     (let devType = toInt ext data;
          s1 = debugEvent (''devtypeinput: '' @ String_int devType) s
      in if devType = -1 then
           Some (deviceType (EEPROMdata s1), buzzerGoodBeepOnce s1)
         else if devType \<noteq> 0 \<or> data = ''0'' then
           (let oldType = deviceType (EEPROMdata s1);
                s2 = logToDB ''DeviceTypeChange'' (String_int devType) 0 '''' '''' s1;
                s3 = s2\<lparr>EEPROMdata := (EEPROMdata s2)\<lparr>deviceType := devType\<rparr>\<rparr>;
                s4 = EEPROMWrite s3;
                s5 = digitalWrite REJECT_LED HIGH s4;
                s6 = s5\<lparr>EEPROMdata := (EEPROMdata s5)\<lparr>deviceType := oldType\<rparr>\<rparr>
            in map_option (Pair 0) (rebootSet t 1000 s6))
         else Some (1, s1))"

definition cloudSetLockListenDevType ::
  "'doc externals \<Rightarrow> millis_t \<Rightarrow> string \<Rightarrow> firmware \<Rightarrow> (int \<times> firmware) option" where
  "cloudSetLockListenDevType ext t data s =
     (let listenType = toInt ext data;
          s1 = debugEvent (''lockListenType: '' @ String_int listenType) s
      in if listenType = -1 then
           Some (lockListenType (EEPROMdata s1), s1)
         else if listenType \<noteq> 0 \<or> data = ''0'' then
           (let oldType = lockListenType (EEPROMdata s1);
                s2 = logToDB ''ListenTypeChange'' (String_int listenType) 0 '''' '''' s1;
                s3 = s2\<lparr>EEPROMdata := (EEPROMdata s2)\<lparr>lockListenType := listenType\<rparr>\<rparr>;
                s4 = EEPROMWrite s3;
                s5 = s4\<lparr>EEPROMdata := (EEPROMdata s4)\<lparr>lockListenType := oldType\<rparr>\<rparr>
            in map_option (Pair 0) (rebootSet t 1000 s5))
         else Some (1, s1))"

definition cloudTripLock :: "string \<Rightarrow> firmware \<Rightarrow> int \<times> firmware" where
  "cloudTripLock data s = (0, tripSolenoid s)"

section \<open>The station configuration handshake\<close>

definition clearStationConfig :: "firmware \<Rightarrow> firmware" where
  "clearStationConfig s =
     s\<lparr>g_stationConfig :=
         \<lparr>isValid = False, cfgDeviceType = 0, deviceName = '''', LCDName = '''',
          photoDisplay = '''', logEvent = '''', OKKeywords = ''''\<rparr>\<rparr>"

definition fdbGetStationConfig :: "firmware \<Rightarrow> firmware" where
  "fdbGetStationConfig s =
     (let s1 = clearStationConfig s;
          output = String_int (deviceType (EEPROMdata s1))
      in Particle_publish ''fdbGetStationConfig'' output s1)"

definition fdbReceiveStationConfig ::
  "'doc externals \<Rightarrow> string \<Rightarrow> string \<Rightarrow> firmware \<Rightarrow> firmware" where
  "fdbReceiveStationConfig ext event data s =
     (let temp = strcpy_safe 3000 data;
          (err, docJSON) = deserializeJson ext temp;
          s1 = s\<lparr>JSONParseError := c_str err\<rparr>
      in if err = Ok then
           (let root_0 = elem0 ext docJSON in
            if as_int ext root_0 ''deviceType'' = deviceType (EEPROMdata s1) then
              setStationConfig
                (as_int ext root_0 ''deviceType'')
                (as_str ext root_0 ''deviceName'')
                (as_str ext root_0 ''LCDName'')
                (as_str ext root_0 ''logEvent'')
                (as_str ext root_0 ''photoDisplay'')
                (as_str ext root_0 ''OKKeywords'')
                s1
            else
              debugEvent
                (''Station Config deviceType does not match. Expected: ''
                   @ String_int (deviceType (EEPROMdata s1))
                   @ '' received: ''
                   @ String_int (as_int ext root_0 ''deviceType''))
                s1)
         else
           debugEvent (''Staion Config JSON parse error. '' @ temp) s1)"

definition particleCallbackMNLOGDB ::
  "'doc externals \<Rightarrow> millis_t \<Rightarrow> string \<Rightarrow> string \<Rightarrow> firmware \<Rightarrow> firmware" where
  "particleCallbackMNLOGDB ext t event data s =
     (let s1 = s\<lparr>allowDebugToPublish := t + 20000\<rparr>;
          eventName = event;
          myDeviceID = deviceID ext;
          s2 = (if indexOf eventName (myDeviceID @ ''fdbGetStationConfig'') \<ge> 0 then
                  fdbReceiveStationConfig ext event data s1
                else debugEvent (''unknown particle event 2: '' @ event) s1)
      in s2\<lparr>allowDebugToPublish := t + 500\<rparr>)"

section \<open>The dispatch loop\<close>

definition heartbeatLEDs :: "millis_t \<Rightarrow> firmware \<Rightarrow> firmware" where
  "heartbeatLEDs t s =
     (if t - lastBlinkTimeD7 s > 500 then
        (let s1 = s\<lparr>ledState := (if ledState s = HIGH then LOW else HIGH)\<rparr>;
             s2 = digitalWrite ONBOARD_LED_PIN (ledState s1) s1
         in s2\<lparr>lastBlinkTimeD7 := t\<rparr>)
      else s)"

text \<open>What one call of \<open>loop\<close> reads from outside: the clock, the wall-clock hour and
  minute, and the value \<open>random(70000,30000)\<close> returns.\<close>

record tick =
  now :: millis_t
  hour :: int
  minute :: int
  rnd :: int

definition loop_switch :: "'doc externals \<Rightarrow> tick \<Rightarrow> firmware \<Rightarrow> firmware" where
  "loop_switch ext tk s =
     (case mainloopState s of
        mlsASKFORSTATIONCONFIG \<Rightarrow>
          (if deviceType (EEPROMdata s) = DEVICETYPE_UNDEFINED ext
              \<or> deviceType (EEPROMdata s) = DEVICETYPE_CHECKIN ext then
             (let s1 =
                (if deviceType (EEPROMdata s) = DEVICETYPE_UNDEFINED ext then
                   setStationConfig (DEVICETYPE_UNDEFINED ext)
                     ''Undefined'' ''Undefined'' ''Undefined'' '''' '''' s
                 else if deviceType (EEPROMdata s) = DEVICETYPE_CHECKIN ext then
                   setStationConfig (DEVICETYPE_CHECKIN ext)
                     ''CheckIn'' ''Check In'' ''Check In'' '''' '''' s
                 else
                   setStationConfig 99999
                     ''code error 1'' ''code error 1'' ''code error 1'' '''' '''' s)
              in s1\<lparr>mainloopState := mlsDEVICELOOP\<rparr>)
           else
             (let s1 = s\<lparr>processStart := now tk\<rparr>;
                  s2 = fdbGetStationConfig s1
              in s2\<lparr>mainloopState := mlsWAITFORSTATIONCONFIG\<rparr>))
      | mlsWAITFORSTATIONCONFIG \<Rightarrow>
          (if now tk - processStart s > 20000 then s\<lparr>mainloopState := mlsERROR\<rparr>
           else if isValid (g_stationConfig s) then s\<lparr>mainloopState := mlsDEVICELOOP\<rparr>
           else s)
      | mlsDEVICELOOP \<Rightarrow> loopLockbox ext s
      | mlsERROR \<Rightarrow> s\<lparr>mainloopState := mlsERROR\<rparr>)"

definition loop :: "'doc externals \<Rightarrow> tick \<Rightarrow> firmware \<Rightarrow> firmware option" where
  "loop ext tk s =
     (let s1 = loop_switch ext tk s;
          s2 = heartbeatLEDs (now tk) s1;
          s3 = debugEvent '''' s2
      in if hour tk = 1 \<and> minute tk = 5 then
           Option.bind (rebootSet (now tk) (rnd tk) s3) (rebootSet (now tk) 0)
         else rebootSet (now tk) 0 s3)"

text \<open>A run of the firmware between two resets: the calls the platform makes, in
  order. The run ends with \<open>None\<close> when a call reaches \<open>System.reset()\<close>.\<close>

datatype call =
    Tick tick
  | CheckinEvent millis_t string string
  | ConfigEvent millis_t string string
  | SetDeviceType millis_t string
  | SetLockListenType millis_t string
  | TripLock string

fun step :: "'doc externals \<Rightarrow> call \<Rightarrow> firmware \<Rightarrow> firmware option" where
  "step ext (Tick tk) s = loop ext tk s"
| "step ext (CheckinEvent t event data) s = Some (particleCallbackEventCheckin t event data s)"
| "step ext (ConfigEvent t event data) s = Some (particleCallbackMNLOGDB ext t event data s)"
| "step ext (SetDeviceType t data) s = map_option snd (cloudSetDeviceType ext t data s)"
| "step ext (SetLockListenType t data) s = map_option snd (cloudSetLockListenDevType ext t data s)"
| "step ext (TripLock data) s = Some (snd (cloudTripLock data s))"

fun run :: "'doc externals \<Rightarrow> call list \<Rightarrow> firmware \<Rightarrow> firmware option" where
  "run ext [] s = Some s"
| "run ext (c # cs) s = (case step ext c s of None \<Rightarrow> None | Some s' \<Rightarrow> run ext cs s')"

section \<open>A reference instance of the outside parameters\<close>

text \<open>
  Concrete inputs need concrete library functions. The instance below is a plain JSON
  reader (objects, arrays, integers, strings without escapes, \<open>true\<close>, \<open>false\<close>,
  \<open>null\<close>, white space between tokens; text after the first value is not read) and the
  C library's \<open>atol\<close> for \<open>String::toInt\<close>. It is used only to evaluate the model on
  concrete payloads; no general theorem depends on it.
\<close>

datatype json =
  JNull | JBool bool | JInt int | JStr string | JArr "json list" | JObj "(string \<times> json) list"

definition is_space :: "char \<Rightarrow> bool" where
  "is_space c = (of_char c \<in> {9, 10, 11, 12, 13, 32 :: nat})"

definition is_digit :: "char \<Rightarrow> bool" where
  "is_digit c = (48 \<le> (of_char c :: nat) \<and> (of_char c :: nat) \<le> 57)"

definition skip_ws :: "string \<Rightarrow> string" where
  "skip_ws = dropWhile is_space"

definition decimal :: "string \<Rightarrow> int" where
  "decimal ds = foldl (\<lambda>a c. a * 10 + (int (of_char c) - 48)) 0 ds"

text \<open>A token \<open>c\<close> after optional white space: the rest of the input behind it.\<close>

definition expect :: "char \<Rightarrow> string \<Rightarrow> string option" where
  "expect c cs = (case skip_ws cs of [] \<Rightarrow> None | d # r \<Rightarrow> if d = c then Some r else None)"

text \<open>The characters of a string literal whose opening quote has been read.\<close>

definition string_body :: "string \<Rightarrow> (string \<times> string) option" where
  "string_body cs =
     (let body = takeWhile (\<lambda>c. c \<noteq> CHR 0x22) cs; r = dropWhile (\<lambda>c. c \<noteq> CHR 0x22) cs
      in if r = [] \<or> CHR 0x5C \<in> set body then None else Some (body, tl r))"

definition number :: "string \<Rightarrow> (json \<times> string) option" where
  "number cs =
     (let neg = (cs \<noteq> [] \<and> hd cs = CHR ''-'');
          r = (if neg then tl cs else cs);
          ds = takeWhile is_digit r
      in if ds = [] then None
         else Some (JInt (if neg then - decimal ds else decimal ds), dropWhile is_digit r))"

definition literal :: "string \<Rightarrow> (json \<times> string) option" where
  "literal cs =
     (if take 4 cs = ''null'' then Some (JNull, drop 4 cs)
      else if take 4 cs = ''true'' then Some (JBool True, drop 4 cs)
      else if take 5 cs = ''false'' then Some (JBool False, drop 5 cs)
      else None)"

text \<open>The first argument bounds the number of nested calls; \<open>ref_deserializeJson\<close>
  starts with the length of the input plus one.\<close>

fun value_json :: "nat \<Rightarrow> string \<Rightarrow> (json \<times> string) option"
  and members :: "nat \<Rightarrow> string \<Rightarrow> ((string \<times> json) list \<times> string) option"
  and elements :: "nat \<Rightarrow> string \<Rightarrow> (json list \<times> string) option" where
  "value_json 0 cs = None"
| "value_json (Suc n) cs =
     (case skip_ws cs of
        [] \<Rightarrow> None
      | c # r \<Rightarrow>
          if c = CHR ''{'' then
            (case expect CHR ''}'' r of
               Some r' \<Rightarrow> Some (JObj [], r')
             | None \<Rightarrow> map_option (\<lambda>(ms, r'). (JObj ms, r')) (members n r))
          else if c = CHR ''['' then
            (case expect CHR '']'' r of
               Some r' \<Rightarrow> Some (JArr [], r')
             | None \<Rightarrow> map_option (\<lambda>(vs, r'). (JArr vs, r')) (elements n r))
          else if c = CHR 0x22 then map_option (\<lambda>(b, r'). (JStr b, r')) (string_body r)
          else if c = CHR ''-'' \<or> is_digit c then number (c # r)
          else literal (c # r))"
| "members 0 cs = None"
| "members (Suc n) cs =
     (case expect CHR 0x22 cs of
        None \<Rightarrow> None
      | Some r \<Rightarrow>
          (case string_body r of
             None \<Rightarrow> None
           | Some (key, r1) \<Rightarrow>
               (case expect CHR '':'' r1 of
                  None \<Rightarrow> None
                | Some r2 \<Rightarrow>
                    (case value_json n r2 of
                       None \<Rightarrow> None
                     | Some (v, r3) \<Rightarrow>
                         (case expect CHR ''}'' r3 of
                            Some r4 \<Rightarrow> Some ([(key, v)], r4)
                          | None \<Rightarrow>
                              (case expect CHR '','' r3 of
                                 None \<Rightarrow> None
                               | Some r4 \<Rightarrow>
                                   map_option (\<lambda>(ms, r5). ((key, v) # ms, r5))
                                     (members n r4)))))))"
| "elements 0 cs = None"
| "elements (Suc n) cs =
     (case value_json n cs of
        None \<Rightarrow> None
      | Some (v, r) \<Rightarrow>
          (case expect CHR '']'' r of
             Some r1 \<Rightarrow> Some ([v], r1)
           | None \<Rightarrow>
               (case expect CHR '','' r of
                  None \<Rightarrow> None
                | Some r1 \<Rightarrow> map_option (\<lambda>(vs, r2). (v # vs, r2)) (elements n r1))))"

definition ref_deserializeJson :: "string \<Rightarrow> DeserializationError \<times> json" where
  "ref_deserializeJson input =
     (case value_json (Suc (length input)) input of
        None \<Rightarrow> (if skip_ws input = [] then IncompleteInput else InvalidInput, JNull)
      | Some (v, r) \<Rightarrow> (Ok, v))"

definition member :: "json \<Rightarrow> string \<Rightarrow> json option" where
  "member d k = (case d of JObj ms \<Rightarrow> map_of ms k | _ \<Rightarrow> None)"

definition ref_as_int :: "json \<Rightarrow> string \<Rightarrow> int" where
  "ref_as_int d k =
     (case member d k of
        Some (JInt n) \<Rightarrow> n
      | Some (JBool b) \<Rightarrow> (if b then 1 else 0)
      | _ \<Rightarrow> 0)"

definition ref_eq_int :: "json \<Rightarrow> string \<Rightarrow> int \<Rightarrow> bool" where
  "ref_eq_int d k n = (case member d k of Some (JInt m) \<Rightarrow> m = n | _ \<Rightarrow> False)"

definition ref_as_str :: "json \<Rightarrow> string \<Rightarrow> string" where
  "ref_as_str d k = (case member d k of Some (JStr x) \<Rightarrow> x | _ \<Rightarrow> '''')"

definition ref_elem0 :: "json \<Rightarrow> json" where
  "ref_elem0 d = (case d of JArr (x # xs) \<Rightarrow> x | _ \<Rightarrow> JNull)"

text \<open>\<open>atol\<close>: leading white space, an optional sign, then the longest run of digits;
  \<open>0\<close> when there is none; the value is kept in the range of a 32-bit \<open>long\<close>.\<close>

definition ref_toInt :: "string \<Rightarrow> int" where
  "ref_toInt str =
     (let r = skip_ws str;
          neg = (r \<noteq> [] \<and> hd r = CHR ''-'');
          r1 = (if r \<noteq> [] \<and> (hd r = CHR ''-'' \<or> hd r = CHR ''+'') then tl r else r);
          v = decimal (takeWhile is_digit r1)
      in max (- 2147483648) (min 2147483647 (if neg then - v else v)))"

definition ref_ext :: "json externals" where
  "ref_ext =
     \<lparr>deserializeJson = ref_deserializeJson, as_int = ref_as_int, eq_int = ref_eq_int,
      as_str = ref_as_str, elem0 = ref_elem0, toInt = ref_toInt,
      deviceID = ''e00fce68'', checkinEventSecret = 12345,
      DEVICETYPE_UNDEFINED = 0, DEVICETYPE_CHECKIN = 1\<rparr>"

text \<open>A device after start-up: the initial values of the globals and statics of the file,
  with an identity record as read from durable storage, an empty station configuration
  and an empty trace (what \<open>setup\<close> itself logs is left out).\<close>

definition boot :: "EEPROMdata_t \<Rightarrow> firmware" where
  "boot ee =
     \<lparr>mg_checkinEventData = '''', EEPROMdata = ee, eeprom = ee,
      g_stationConfig =
        \<lparr>isValid = False, cfgDeviceType = 0, deviceName = '''', LCDName = '''',
         photoDisplay = '''', logEvent = '''', OKKeywords = ''''\<rparr>,
      JSONParseError = '''', allowDebugToPublish = 0, rebootTime = 4294967290,
      lastBlinkTimeD7 = 0, ledState = HIGH, llbxloopState = llbxINIT,
      mainloopState = mlsASKFORSTATIONCONFIG, processStart = 0, trace = []\<rparr>"

section \<open>Reading the trace\<close>

text \<open>The entries a call \<open>f\<close> adds to the trace of \<open>s\<close>.\<close>

definition emitted :: "(firmware \<Rightarrow> firmware) \<Rightarrow> firmware \<Rightarrow> effect list" where
  "emitted f s = drop (length (trace s)) (trace (f s))"

text \<open>An unlock audit record: a \<open>logToDB\<close> call whose event name is \<open>"Unlock"\<close>.\<close>

fun is_unlock_record :: "effect \<Rightarrow> bool" where
  "is_unlock_record (LogToDB name a b c d) = (name = ''Unlock'')"
| "is_unlock_record e = False"

definition actuations :: "effect list \<Rightarrow> nat" where
  "actuations es = length (filter (\<lambda>e. e = TripSolenoid) es)"

definition unlock_records :: "effect list \<Rightarrow> nat" where
  "unlock_records es = length (filter is_unlock_record es)"

section \<open>Terms of the specification\<close>

text \<open>A "non-blank numeric" input of the remote operations, read as a decimal integer
  numeral: an optional minus sign, then one or more digits, and nothing else.\<close>

definition is_numeric :: "string \<Rightarrow> bool" where
  "is_numeric str =
     (let ds = (if str \<noteq> [] \<and> hd str = CHR ''-'' then tl str else str)
      in ds \<noteq> [] \<and> list_all is_digit ds)"

text \<open>The hypothesis of the timeout claim, on a run that starts in the waiting state
  \<open>s\<close>: the run has a tick more than 20000 ms after the request (\<open>processStart\<close>), and
  at every tick before it \<open>isValid\<close> is false.\<close>

fun timed_out :: "'doc externals \<Rightarrow> call list \<Rightarrow> firmware \<Rightarrow> bool" where
  "timed_out ext [] s = False"
| "timed_out ext (Tick tk # cs) s =
     (if now tk - processStart s > 20000 then True
      else \<not> isValid (g_stationConfig s)
           \<and> (case step ext (Tick tk) s of None \<Rightarrow> False | Some s' \<Rightarrow> timed_out ext cs s'))"
| "timed_out ext (c # cs) s =
     (case step ext c s of None \<Rightarrow> False | Some s' \<Rightarrow> timed_out ext cs s')"

section \<open>Properties\<close>

subsection \<open>Basic facts\<close>

lemma eventcheckin_parse_error:
  assumes "fst (deserializeJson ext (strcpy_safe 1000 data)) \<noteq> Ok"
  shows "eventcheckin ext data s =
           debugEvent (''checkin event JSON parse error. '' @ strcpy_safe 1000 data)
             (s\<lparr>JSONParseError := c_str (fst (deserializeJson ext (strcpy_safe 1000 data)))\<rparr>)"
  using assms
  by (cases "deserializeJson ext (strcpy_safe 1000 data)") (simp add: eventcheckin_def Let_def)

lemma eventcheckin_bad_secret:
  assumes "deserializeJson ext (strcpy_safe 1000 data) = (Ok, doc)"
    and "as_int ext doc ''secret'' \<noteq> checkinEventSecret ext"
  shows "eventcheckin ext data s =
           debugEvent (''received checkin with bad secret:'' @ String_int (as_int ext doc ''secret''))
             (s\<lparr>JSONParseError := ''Ok''\<rparr>)"
  using assms by (simp add: eventcheckin_def Let_def)

lemma eventcheckin_admit:
  assumes "deserializeJson ext (strcpy_safe 1000 data) = (Ok, doc)"
    and "as_int ext doc ''secret'' = checkinEventSecret ext"
    and "eq_int ext doc ''deviceType'' (lockListenType (EEPROMdata s))"
  shows "eventcheckin ext data s =
           debugEvent
             (''Unlocking based on checkin of devType: '' @ String_int (deviceType (EEPROMdata s)))
             (logToDB ''Unlock''
                (''Unlocking based on checkin of devType: '' @ String_int (deviceType (EEPROMdata s)))
                0 '''' '''' (tripSolenoid (s\<lparr>JSONParseError := ''Ok''\<rparr>)))"
  using assms by (simp add: eventcheckin_def Let_def)

lemma eventcheckin_reject:
  assumes "deserializeJson ext (strcpy_safe 1000 data) = (Ok, doc)"
    and "as_int ext doc ''secret'' = checkinEventSecret ext"
    and "\<not> eq_int ext doc ''deviceType'' (lockListenType (EEPROMdata s))"
  shows "eventcheckin ext data s =
           debugEvent ''received checkin event, not my devType'' (s\<lparr>JSONParseError := ''Ok''\<rparr>)"
  using assms by (simp add: eventcheckin_def Let_def)

lemmas collaborators =
  debugEvent_def logToDB_def tripSolenoid_def digitalWrite_def buzzerGoodBeepOnce_def
  Particle_publish_def

subsection \<open>The validator\<close>

text \<open>
  C1. A payload that deserializes, whose secret is the configured one and whose
  deviceType equals the configured lockListenType: \<open>eventcheckin\<close> adds to the trace one
  \<open>tripSolenoid\<close> call, then one \<open>"Unlock"\<close> record, then one debug event, and nothing
  else; so the lock is actuated exactly once and exactly one unlock record is written.
\<close>

theorem C1_admit_actuates_once:
  assumes "deserializeJson ext (strcpy_safe 1000 data) = (Ok, doc)"
    and "as_int ext doc ''secret'' = checkinEventSecret ext"
    and "eq_int ext doc ''deviceType'' (lockListenType (EEPROMdata s))"
  shows "trace (eventcheckin ext data s) =
           trace s @
           [TripSolenoid,
            LogToDB ''Unlock''
              (''Unlocking based on checkin of devType: '' @ String_int (deviceType (EEPROMdata s)))
              0 '''' '''',
            DebugEvent
              (''Unlocking based on checkin of devType: '' @ String_int (deviceType (EEPROMdata s)))]
         \<and> actuations (emitted (eventcheckin ext data) s) = 1
         \<and> unlock_records (emitted (eventcheckin ext data) s) = 1"
  by (simp add: eventcheckin_admit [OF assms] collaborators emit_def emitted_def
      actuations_def unlock_records_def)

theorem C1_admit_actuates_once_witness:
  "deserializeJson ref_ext (strcpy_safe 1000 ''{\"deviceType\":105, \"secret\":12345}'')
     = (Ok, JObj [(''deviceType'', JInt 105), (''secret'', JInt 12345)])
   \<and> as_int ref_ext (JObj [(''deviceType'', JInt 105), (''secret'', JInt 12345)]) ''secret''
     = checkinEventSecret ref_ext
   \<and> eq_int ref_ext (JObj [(''deviceType'', JInt 105), (''secret'', JInt 12345)]) ''deviceType''
       (lockListenType (EEPROMdata (boot \<lparr>deviceType = 7, lockListenType = 105\<rparr>)))
   \<and> trace (eventcheckin ref_ext ''{\"deviceType\":105, \"secret\":12345}''
        (boot \<lparr>deviceType = 7, lockListenType = 105\<rparr>))
     = [TripSolenoid,
        LogToDB ''Unlock'' ''Unlocking based on checkin of devType: 7'' 0 '''' '''',
        DebugEvent ''Unlocking based on checkin of devType: 7'']
   \<and> actuations (emitted (eventcheckin ref_ext ''{\"deviceType\":105, \"secret\":12345}'')
        (boot \<lparr>deviceType = 7, lockListenType = 105\<rparr>)) = 1
   \<and> unlock_records (emitted (eventcheckin ref_ext ''{\"deviceType\":105, \"secret\":12345}'')
        (boot \<lparr>deviceType = 7, lockListenType = 105\<rparr>)) = 1"
proof -
  have h1: "deserializeJson ref_ext (strcpy_safe 1000 ''{\"deviceType\":105, \"secret\":12345}'')
     = (Ok, JObj [(''deviceType'', JInt 105), (''secret'', JInt 12345)])"
    by code_simp
  have h2: "as_int ref_ext (JObj [(''deviceType'', JInt 105), (''secret'', JInt 12345)]) ''secret''
     = checkinEventSecret ref_ext"
    by code_simp
  have h3: "eq_int ref_ext (JObj [(''deviceType'', JInt 105), (''secret'', JInt 12345)]) ''deviceType''
       (lockListenType (EEPROMdata (boot \<lparr>deviceType = 7, lockListenType = 105\<rparr>)))"
    by code_simp
  have d: "String_int (deviceType (EEPROMdata (boot \<lparr>deviceType = 7, lockListenType = 105\<rparr>))) = ''7''"
    by code_simp
  have t: "trace (boot \<lparr>deviceType = 7, lockListenType = 105\<rparr>) = []"
    by (simp add: boot_def)
  show ?thesis
    using h1 h2 h3 C1_admit_actuates_once [OF h1 h2 h3] by (simp add: d t)
qed

text \<open>
  C2. A payload that deserializes and whose secret differs from the configured one:
  \<open>eventcheckin\<close> records the bad secret and returns. The lock is not actuated, and the
  result does not depend on the comparison of the deviceType field: replacing that
  comparison by any other function gives the same state.
\<close>

theorem C2_bad_secret_never_actuates:
  assumes "deserializeJson ext (strcpy_safe 1000 data) = (Ok, doc)"
    and "as_int ext doc ''secret'' \<noteq> checkinEventSecret ext"
  shows "emitted (eventcheckin ext data) s =
           [DebugEvent (''received checkin with bad secret:'' @ String_int (as_int ext doc ''secret''))]
         \<and> actuations (emitted (eventcheckin ext data) s) = 0
         \<and> (\<forall>cmp. eventcheckin (ext\<lparr>eq_int := cmp\<rparr>) data s = eventcheckin ext data s)"
proof -
  have "\<And>cmp. eventcheckin (ext\<lparr>eq_int := cmp\<rparr>) data s = eventcheckin ext data s"
    using assms by (simp add: eventcheckin_def Let_def)
  then show ?thesis
    by (simp add: eventcheckin_bad_secret [OF assms] collaborators emit_def emitted_def
        actuations_def)
qed

theorem C2_bad_secret_never_actuates_witness:
  "deserializeJson ref_ext (strcpy_safe 1000 ''{\"deviceType\":105, \"secret\":99999}'')
     = (Ok, JObj [(''deviceType'', JInt 105), (''secret'', JInt 99999)])
   \<and> as_int ref_ext (JObj [(''deviceType'', JInt 105), (''secret'', JInt 99999)]) ''secret''
     \<noteq> checkinEventSecret ref_ext
   \<and> emitted (eventcheckin ref_ext ''{\"deviceType\":105, \"secret\":99999}'')
        (boot \<lparr>deviceType = 7, lockListenType = 105\<rparr>)
     = [DebugEvent ''received checkin with bad secret:99999'']
   \<and> actuations (emitted (eventcheckin ref_ext ''{\"deviceType\":105, \"secret\":99999}'')
        (boot \<lparr>deviceType = 7, lockListenType = 105\<rparr>)) = 0"
proof -
  have h1: "deserializeJson ref_ext (strcpy_safe 1000 ''{\"deviceType\":105, \"secret\":99999}'')
     = (Ok, JObj [(''deviceType'', JInt 105), (''secret'', JInt 99999)])"
    by code_simp
  have h2: "as_int ref_ext (JObj [(''deviceType'', JInt 105), (''secret'', JInt 99999)]) ''secret''
     \<noteq> checkinEventSecret ref_ext"
    by code_simp
  have v: "as_int ref_ext (JObj [(''deviceType'', JInt 105), (''secret'', JInt 99999)]) ''secret''
     = 99999"
    by code_simp
  have d: "String_int 99999 = ''99999''"
    by code_simp
  note r = C2_bad_secret_never_actuates [OF h1 h2, of "boot \<lparr>deviceType = 7, lockListenType = 105\<rparr>"]
  have e: "emitted (eventcheckin ref_ext ''{\"deviceType\":105, \"secret\":99999}'')
        (boot \<lparr>deviceType = 7, lockListenType = 105\<rparr>)
     = [DebugEvent ''received checkin with bad secret:99999'']"
    using r [THEN conjunct1] by (simp add: v d)
  show ?thesis
    by (intro conjI) (rule h1 h2 e r [THEN conjunct2, THEN conjunct1])+
qed

text \<open>
  C3. A payload that deserializes, with the configured secret, whose deviceType does not
  equal the configured lockListenType: \<open>eventcheckin\<close> adds one debug event to the trace
  and no \<open>tripSolenoid\<close> call.
\<close>

theorem C3_other_device_type_never_actuates:
  assumes "deserializeJson ext (strcpy_safe 1000 data) = (Ok, doc)"
    and "as_int ext doc ''secret'' = checkinEventSecret ext"
    and "\<not> eq_int ext doc ''deviceType'' (lockListenType (EEPROMdata s))"
  shows "emitted (eventcheckin ext data) s = [DebugEvent ''received checkin event, not my devType'']
         \<and> actuations (emitted (eventcheckin ext data) s) = 0"
  by (simp add: eventcheckin_reject [OF assms] collaborators emit_def emitted_def actuations_def)

theorem C3_other_device_type_never_actuates_witness:
  "deserializeJson ref_ext (strcpy_safe 1000 ''{\"deviceType\":105, \"secret\":12345}'')
     = (Ok, JObj [(''deviceType'', JInt 105), (''secret'', JInt 12345)])
   \<and> as_int ref_ext (JObj [(''deviceType'', JInt 105), (''secret'', JInt 12345)]) ''secret''
     = checkinEventSecret ref_ext
   \<and> \<not> eq_int ref_ext (JObj [(''deviceType'', JInt 105), (''secret'', JInt 12345)]) ''deviceType''
       (lockListenType (EEPROMdata (boot \<lparr>deviceType = 7, lockListenType = 106\<rparr>)))
   \<and> emitted (eventcheckin ref_ext ''{\"deviceType\":105, \"secret\":12345}'')
        (boot \<lparr>deviceType = 7, lockListenType = 106\<rparr>)
     = [DebugEvent ''received checkin event, not my devType'']
   \<and> actuations (emitted (eventcheckin ref_ext ''{\"deviceType\":105, \"secret\":12345}'')
        (boot \<lparr>deviceType = 7, lockListenType = 106\<rparr>)) = 0"
proof -
  have h1: "deserializeJson ref_ext (strcpy_safe 1000 ''{\"deviceType\":105, \"secret\":12345}'')
     = (Ok, JObj [(''deviceType'', JInt 105), (''secret'', JInt 12345)])"
    by code_simp
  have h2: "as_int ref_ext (JObj [(''deviceType'', JInt 105), (''secret'', JInt 12345)]) ''secret''
     = checkinEventSecret ref_ext"
    by code_simp
  have h3: "\<not> eq_int ref_ext (JObj [(''deviceType'', JInt 105), (''secret'', JInt 12345)]) ''deviceType''
       (lockListenType (EEPROMdata (boot \<lparr>deviceType = 7, lockListenType = 106\<rparr>)))"
    by code_simp
  note r = C3_other_device_type_never_actuates [OF h1 h2 h3]
  show ?thesis
    by (intro conjI) (rule h1 h2 h3 r [THEN conjunct1] r [THEN conjunct2])+
qed

text \<open>
  C4, as stated, fails on both classes of payload it names.
  \<^item> A payload without a secret field is valid JSON, so \<open>deserializeJson\<close> reports no
    error; the missing secret reads as \<open>0\<close> and the payload is handled as a bad secret, not
    as a parse error. Where the configured secret is \<open>0\<close>, the same payload passes the
    secret test and the lock is actuated.
  \<^item> A payload longer than the buffer is cut to its first 999 bytes. The 1034-byte payload
    below starts with a complete object, so the cut text still deserializes: no parse
    error, and the lock is actuated.
\<close>

theorem C4_no_parse_error_counterexample:
  "deserializeJson ref_ext (strcpy_safe 1000 ''{\"deviceType\":105}'')
     = (Ok, JObj [(''deviceType'', JInt 105)])
   \<and> member (JObj [(''deviceType'', JInt 105)]) ''secret'' = None
   \<and> emitted (eventcheckin ref_ext ''{\"deviceType\":105}'')
        (boot \<lparr>deviceType = 7, lockListenType = 105\<rparr>)
     = [DebugEvent ''received checkin with bad secret:0'']
   \<and> emitted (eventcheckin ref_ext ''{\"deviceType\":105}'')
        (boot \<lparr>deviceType = 7, lockListenType = 105\<rparr>)
     \<noteq> [DebugEvent (''checkin event JSON parse error. '' @ ''{\"deviceType\":105}'')]
   \<and> actuations (emitted (eventcheckin (ref_ext\<lparr>checkinEventSecret := 0\<rparr>) ''{\"deviceType\":105}'')
        (boot \<lparr>deviceType = 7, lockListenType = 105\<rparr>)) = 1
   \<and> length (''{\"deviceType\":105, \"secret\":12345}'' @ replicate 1000 CHR ''x'') = 1034
   \<and> fst (deserializeJson ref_ext
        (strcpy_safe 1000 (''{\"deviceType\":105, \"secret\":12345}'' @ replicate 1000 CHR ''x''))) = Ok
   \<and> emitted
        (eventcheckin ref_ext (''{\"deviceType\":105, \"secret\":12345}'' @ replicate 1000 CHR ''x''))
        (boot \<lparr>deviceType = 7, lockListenType = 105\<rparr>)
     = [TripSolenoid,
        LogToDB ''Unlock'' ''Unlocking based on checkin of devType: 7'' 0 '''' '''',
        DebugEvent ''Unlocking based on checkin of devType: 7'']
   \<and> actuations (emitted
        (eventcheckin ref_ext (''{\"deviceType\":105, \"secret\":12345}'' @ replicate 1000 CHR ''x''))
        (boot \<lparr>deviceType = 7, lockListenType = 105\<rparr>)) = 1"
proof -
  have l: "length (''{\"deviceType\":105, \"secret\":12345}'' @ replicate 1000 CHR ''x'') = 1034"
    by simp
  have r: "deserializeJson ref_ext (strcpy_safe 1000 ''{\"deviceType\":105}'')
     = (Ok, JObj [(''deviceType'', JInt 105)])
   \<and> member (JObj [(''deviceType'', JInt 105)]) ''secret'' = None
   \<and> emitted (eventcheckin ref_ext ''{\"deviceType\":105}'')
        (boot \<lparr>deviceType = 7, lockListenType = 105\<rparr>)
     = [DebugEvent ''received checkin with bad secret:0'']
   \<and> emitted (eventcheckin ref_ext ''{\"deviceType\":105}'')
        (boot \<lparr>deviceType = 7, lockListenType = 105\<rparr>)
     \<noteq> [DebugEvent (''checkin event JSON parse error. '' @ ''{\"deviceType\":105}'')]
   \<and> actuations (emitted (eventcheckin (ref_ext\<lparr>checkinEventSecret := 0\<rparr>) ''{\"deviceType\":105}'')
        (boot \<lparr>deviceType = 7, lockListenType = 105\<rparr>)) = 1"
    by code_simp
  have o: "fst (deserializeJson ref_ext
        (strcpy_safe 1000 (''{\"deviceType\":105, \"secret\":12345}'' @ replicate 1000 CHR ''x''))) = Ok
   \<and> emitted
        (eventcheckin ref_ext (''{\"deviceType\":105, \"secret\":12345}'' @ replicate 1000 CHR ''x''))
        (boot \<lparr>deviceType = 7, lockListenType = 105\<rparr>)
     = [TripSolenoid,
        LogToDB ''Unlock'' ''Unlocking based on checkin of devType: 7'' 0 '''' '''',
        DebugEvent ''Unlocking based on checkin of devType: 7'']
   \<and> actuations (emitted
        (eventcheckin ref_ext (''{\"deviceType\":105, \"secret\":12345}'' @ replicate 1000 CHR ''x''))
        (boot \<lparr>deviceType = 7, lockListenType = 105\<rparr>)) = 1"
    by code_simp
  show ?thesis
    using l r o by blast
qed

text \<open>
  C4, amended. The parse-error outcome is tied to the error code of \<open>deserializeJson\<close>
  on the first 999 bytes of the payload (what \<open>strcpy_safe\<close> leaves in the buffer):
  \<^item> when the library reports an error, \<open>eventcheckin\<close> adds the parse-error debug event
    and nothing else, and the lock is not actuated;
  \<^item> when it reports none, as for a payload that lacks a field or is longer than the
    buffer but still deserializes, no parse-error event is added, and the payload is
    judged like any other: the lock is actuated exactly when the value read for the
    secret is the configured one and the deviceType compares equal to the configured
    lockListenType, and is not actuated otherwise.
\<close>

theorem C4_parse_error_and_actuation:
  "(fst (deserializeJson ext (strcpy_safe 1000 data)) \<noteq> Ok \<longrightarrow>
      emitted (eventcheckin ext data) s =
        [DebugEvent (''checkin event JSON parse error. '' @ strcpy_safe 1000 data)]
      \<and> actuations (emitted (eventcheckin ext data) s) = 0)
   \<and> (deserializeJson ext (strcpy_safe 1000 data) = (Ok, doc) \<longrightarrow>
        (\<forall>m. DebugEvent (''checkin event JSON parse error. '' @ m)
              \<notin> set (emitted (eventcheckin ext data) s))
        \<and> actuations (emitted (eventcheckin ext data) s) =
            (if as_int ext doc ''secret'' = checkinEventSecret ext
                \<and> eq_int ext doc ''deviceType'' (lockListenType (EEPROMdata s))
             then 1 else 0))"
proof (intro conjI impI)
  assume e: "fst (deserializeJson ext (strcpy_safe 1000 data)) \<noteq> Ok"
  show "emitted (eventcheckin ext data) s =
        [DebugEvent (''checkin event JSON parse error. '' @ strcpy_safe 1000 data)]"
    by (simp add: eventcheckin_parse_error [OF e] collaborators emit_def emitted_def)
  then show "actuations (emitted (eventcheckin ext data) s) = 0"
    by (simp add: actuations_def)
next
  assume p: "deserializeJson ext (strcpy_safe 1000 data) = (Ok, doc)"
  show "\<forall>m. DebugEvent (''checkin event JSON parse error. '' @ m)
              \<notin> set (emitted (eventcheckin ext data) s)"
  proof (cases "as_int ext doc ''secret'' = checkinEventSecret ext")
    case False
    then show ?thesis
      by (simp add: eventcheckin_bad_secret [OF p] collaborators emit_def emitted_def)
  next
    case True
    then show ?thesis
      by (cases "eq_int ext doc ''deviceType'' (lockListenType (EEPROMdata s))")
        (simp_all add: eventcheckin_admit [OF p] eventcheckin_reject [OF p]
          collaborators emit_def emitted_def)
  qed
  show "actuations (emitted (eventcheckin ext data) s) =
            (if as_int ext doc ''secret'' = checkinEventSecret ext
                \<and> eq_int ext doc ''deviceType'' (lockListenType (EEPROMdata s))
             then 1 else 0)"
  proof (cases "as_int ext doc ''secret'' = checkinEventSecret ext")
    case False
    then show ?thesis
      by (simp add: eventcheckin_bad_secret [OF p] collaborators emit_def emitted_def
          actuations_def)
  next
    case True
    then show ?thesis
      by (cases "eq_int ext doc ''deviceType'' (lockListenType (EEPROMdata s))")
        (simp_all add: eventcheckin_admit [OF p] eventcheckin_reject [OF p]
          collaborators emit_def emitted_def actuations_def)
  qed
qed

theorem C4_parse_error_and_actuation_witness:
  "fst (deserializeJson ref_ext (strcpy_safe 1000 ''{\"deviceType\":'')) \<noteq> Ok
   \<and> emitted (eventcheckin ref_ext ''{\"deviceType\":'')
        (boot \<lparr>deviceType = 7, lockListenType = 105\<rparr>)
     = [DebugEvent ''checkin event JSON parse error. {\"deviceType\":'']
   \<and> actuations (emitted (eventcheckin ref_ext ''{\"deviceType\":'')
        (boot \<lparr>deviceType = 7, lockListenType = 105\<rparr>)) = 0
   \<and> deserializeJson ref_ext (strcpy_safe 1000 ''{\"deviceType\":105}'')
     = (Ok, JObj [(''deviceType'', JInt 105)])
   \<and> (\<forall>m. DebugEvent (''checkin event JSON parse error. '' @ m)
          \<notin> set (emitted (eventcheckin ref_ext ''{\"deviceType\":105}'')
                   (boot \<lparr>deviceType = 7, lockListenType = 105\<rparr>)))
   \<and> actuations (emitted (eventcheckin ref_ext ''{\"deviceType\":105}'')
        (boot \<lparr>deviceType = 7, lockListenType = 105\<rparr>)) = 0
   \<and> deserializeJson ref_ext
        (strcpy_safe 1000 (''{\"deviceType\":105, \"secret\":12345}'' @ replicate 1000 CHR ''x''))
     = (Ok, JObj [(''deviceType'', JInt 105), (''secret'', JInt 12345)])
   \<and> actuations (emitted
        (eventcheckin ref_ext (''{\"deviceType\":105, \"secret\":12345}'' @ replicate 1000 CHR ''x''))
        (boot \<lparr>deviceType = 7, lockListenType = 105\<rparr>)) = 1"
proof -
  let ?s = "boot \<lparr>deviceType = 7, lockListenType = 105\<rparr>"
  let ?big = "''{\"deviceType\":105, \"secret\":12345}'' @ replicate 1000 CHR ''x''"
  let ?d1 = "JObj [(''deviceType'', JInt 105)]"
  let ?d2 = "JObj [(''deviceType'', JInt 105), (''secret'', JInt 12345)]"
  have h1: "fst (deserializeJson ref_ext (strcpy_safe 1000 ''{\"deviceType\":'')) \<noteq> Ok"
    by code_simp
  have h2: "deserializeJson ref_ext (strcpy_safe 1000 ''{\"deviceType\":105}'') = (Ok, ?d1)"
    by code_simp
  have h3: "deserializeJson ref_ext (strcpy_safe 1000 ?big) = (Ok, ?d2)"
    by code_simp
  have c: "strcpy_safe 1000 ''{\"deviceType\":'' = ''{\"deviceType\":''"
    by (simp add: strcpy_safe_def)
  have v2: "(if as_int ref_ext ?d1 ''secret'' = checkinEventSecret ref_ext
                \<and> eq_int ref_ext ?d1 ''deviceType'' (lockListenType (EEPROMdata ?s))
             then 1 else 0) = (0::nat)"
    by code_simp
  have v3: "(if as_int ref_ext ?d2 ''secret'' = checkinEventSecret ref_ext
                \<and> eq_int ref_ext ?d2 ''deviceType'' (lockListenType (EEPROMdata ?s))
             then 1 else 0) = (1::nat)"
    by code_simp
  note r1 = C4_parse_error_and_actuation [of ref_ext "''{\"deviceType\":''" ?s,
      THEN conjunct1, THEN mp, OF h1]
  note r2 = C4_parse_error_and_actuation [of ref_ext "''{\"deviceType\":105}''" ?s ?d1,
      THEN conjunct2, THEN mp, OF h2]
  note r3 = C4_parse_error_and_actuation [of ref_ext ?big ?s ?d2,
      THEN conjunct2, THEN mp, OF h3]
  have e: "emitted (eventcheckin ref_ext ''{\"deviceType\":'') ?s
     = [DebugEvent ''checkin event JSON parse error. {\"deviceType\":'']"
    using r1 [THEN conjunct1] by (simp add: c)
  show ?thesis
    by (intro conjI)
      (rule h1 h2 h3 e r1 [THEN conjunct2] r2 [THEN conjunct1]
        trans [OF r2 [THEN conjunct2] v2] trans [OF r3 [THEN conjunct2] v3])+
qed

subsection \<open>The station configuration handshake\<close>

lemma fdbReceiveStationConfig_match:
  assumes "deserializeJson ext (strcpy_safe 3000 data) = (Ok, doc)"
    and "as_int ext (elem0 ext doc) ''deviceType'' = deviceType (EEPROMdata s)"
  shows "fdbReceiveStationConfig ext event data s =
           setStationConfig
             (as_int ext (elem0 ext doc) ''deviceType'')
             (as_str ext (elem0 ext doc) ''deviceName'')
             (as_str ext (elem0 ext doc) ''LCDName'')
             (as_str ext (elem0 ext doc) ''logEvent'')
             (as_str ext (elem0 ext doc) ''photoDisplay'')
             (as_str ext (elem0 ext doc) ''OKKeywords'')
             (s\<lparr>JSONParseError := ''Ok''\<rparr>)"
  using assms by (simp add: fdbReceiveStationConfig_def Let_def)

lemma fdbReceiveStationConfig_mismatch:
  assumes "deserializeJson ext (strcpy_safe 3000 data) = (Ok, doc)"
    and "as_int ext (elem0 ext doc) ''deviceType'' \<noteq> deviceType (EEPROMdata s)"
  shows "g_stationConfig (fdbReceiveStationConfig ext event data s) = g_stationConfig s"
  using assms by (simp add: fdbReceiveStationConfig_def Let_def debugEvent_def emit_def)

lemma fdbGetStationConfig_state:
  "g_stationConfig (fdbGetStationConfig s) =
     \<lparr>isValid = False, cfgDeviceType = 0, deviceName = '''', LCDName = '''',
      photoDisplay = '''', logEvent = '''', OKKeywords = ''''\<rparr>"
  "EEPROMdata (fdbGetStationConfig s) = EEPROMdata s"
  "trace (fdbGetStationConfig s) =
     trace s @ [Publish ''fdbGetStationConfig'' (String_int (deviceType (EEPROMdata s)))]"
  by (simp_all add: fdbGetStationConfig_def clearStationConfig_def Particle_publish_def
      emit_def Let_def)

text \<open>
  C5. \<open>fdbGetStationConfig\<close> clears the station configuration (\<open>isValid\<close> false, the
  number zero, every string empty) and publishes one request. A response processed
  after it that deserializes:
  \<^item> with the device type of the local identity, sets the six fields to the values read
    from the response and \<open>isValid\<close> to true;
  \<^item> with another device type, leaves \<open>isValid\<close> false and every field cleared.
\<close>

theorem C5_config_handshake:
  "g_stationConfig (fdbGetStationConfig s) =
     \<lparr>isValid = False, cfgDeviceType = 0, deviceName = '''', LCDName = '''',
      photoDisplay = '''', logEvent = '''', OKKeywords = ''''\<rparr>
   \<and> emitted fdbGetStationConfig s =
       [Publish ''fdbGetStationConfig'' (String_int (deviceType (EEPROMdata s)))]
   \<and> (deserializeJson ext (strcpy_safe 3000 data) = (Ok, doc)
        \<and> as_int ext (elem0 ext doc) ''deviceType'' = deviceType (EEPROMdata s) \<longrightarrow>
        g_stationConfig (fdbReceiveStationConfig ext event data (fdbGetStationConfig s)) =
          \<lparr>isValid = True,
           cfgDeviceType = as_int ext (elem0 ext doc) ''deviceType'',
           deviceName = as_str ext (elem0 ext doc) ''deviceName'',
           LCDName = as_str ext (elem0 ext doc) ''LCDName'',
           photoDisplay = as_str ext (elem0 ext doc) ''photoDisplay'',
           logEvent = as_str ext (elem0 ext doc) ''logEvent'',
           OKKeywords = as_str ext (elem0 ext doc) ''OKKeywords''\<rparr>)
   \<and> (deserializeJson ext (strcpy_safe 3000 data) = (Ok, doc)
        \<and> as_int ext (elem0 ext doc) ''deviceType'' \<noteq> deviceType (EEPROMdata s) \<longrightarrow>
        g_stationConfig (fdbReceiveStationConfig ext event data (fdbGetStationConfig s)) =
          \<lparr>isValid = False, cfgDeviceType = 0, deviceName = '''', LCDName = '''',
           photoDisplay = '''', logEvent = '''', OKKeywords = ''''\<rparr>)"
proof (intro conjI impI)
  show "g_stationConfig (fdbGetStationConfig s) =
     \<lparr>isValid = False, cfgDeviceType = 0, deviceName = '''', LCDName = '''',
      photoDisplay = '''', logEvent = '''', OKKeywords = ''''\<rparr>"
    by (rule fdbGetStationConfig_state)
  show "emitted fdbGetStationConfig s =
       [Publish ''fdbGetStationConfig'' (String_int (deviceType (EEPROMdata s)))]"
    by (simp add: emitted_def fdbGetStationConfig_state)
next
  assume a: "deserializeJson ext (strcpy_safe 3000 data) = (Ok, doc)
        \<and> as_int ext (elem0 ext doc) ''deviceType'' = deviceType (EEPROMdata s)"
  then have m: "as_int ext (elem0 ext doc) ''deviceType''
       = deviceType (EEPROMdata (fdbGetStationConfig s))"
    by (simp add: fdbGetStationConfig_state)
  show "g_stationConfig (fdbReceiveStationConfig ext event data (fdbGetStationConfig s)) =
          \<lparr>isValid = True,
           cfgDeviceType = as_int ext (elem0 ext doc) ''deviceType'',
           deviceName = as_str ext (elem0 ext doc) ''deviceName'',
           LCDName = as_str ext (elem0 ext doc) ''LCDName'',
           photoDisplay = as_str ext (elem0 ext doc) ''photoDisplay'',
           logEvent = as_str ext (elem0 ext doc) ''logEvent'',
           OKKeywords = as_str ext (elem0 ext doc) ''OKKeywords''\<rparr>"
    by (simp add: fdbReceiveStationConfig_match [OF conjunct1 [OF a] m] setStationConfig_def)
next
  assume a: "deserializeJson ext (strcpy_safe 3000 data) = (Ok, doc)
        \<and> as_int ext (elem0 ext doc) ''deviceType'' \<noteq> deviceType (EEPROMdata s)"
  then have m: "as_int ext (elem0 ext doc) ''deviceType''
       \<noteq> deviceType (EEPROMdata (fdbGetStationConfig s))"
    by (simp add: fdbGetStationConfig_state)
  show "g_stationConfig (fdbReceiveStationConfig ext event data (fdbGetStationConfig s)) =
          \<lparr>isValid = False, cfgDeviceType = 0, deviceName = '''', LCDName = '''',
           photoDisplay = '''', logEvent = '''', OKKeywords = ''''\<rparr>"
    by (simp add: fdbReceiveStationConfig_mismatch [OF conjunct1 [OF a] m]
        fdbGetStationConfig_state)
qed

theorem C5_config_handshake_witness:
  "deserializeJson ref_ext (strcpy_safe 3000
      ''[{\"deviceType\":7,\"deviceName\":\"door\",\"LCDName\":\"Door 1\",\"logEvent\":\"unlock\",\"photoDisplay\":\"no\",\"OKKeywords\":\"staff\"}]'')
     = (Ok, JArr [JObj [(''deviceType'', JInt 7), (''deviceName'', JStr ''door''),
          (''LCDName'', JStr ''Door 1''), (''logEvent'', JStr ''unlock''),
          (''photoDisplay'', JStr ''no''), (''OKKeywords'', JStr ''staff'')]])
   \<and> g_stationConfig (fdbReceiveStationConfig ref_ext ''e00fce68fdbGetStationConfig''
        ''[{\"deviceType\":7,\"deviceName\":\"door\",\"LCDName\":\"Door 1\",\"logEvent\":\"unlock\",\"photoDisplay\":\"no\",\"OKKeywords\":\"staff\"}]''
        (fdbGetStationConfig (boot \<lparr>deviceType = 7, lockListenType = 105\<rparr>)))
     = \<lparr>isValid = True, cfgDeviceType = 7, deviceName = ''door'', LCDName = ''Door 1'',
        photoDisplay = ''no'', logEvent = ''unlock'', OKKeywords = ''staff''\<rparr>
   \<and> g_stationConfig (fdbReceiveStationConfig ref_ext ''e00fce68fdbGetStationConfig''
        ''[{\"deviceType\":7,\"deviceName\":\"door\",\"LCDName\":\"Door 1\",\"logEvent\":\"unlock\",\"photoDisplay\":\"no\",\"OKKeywords\":\"staff\"}]''
        (fdbGetStationConfig (boot \<lparr>deviceType = 8, lockListenType = 105\<rparr>)))
     = \<lparr>isValid = False, cfgDeviceType = 0, deviceName = '''', LCDName = '''',
        photoDisplay = '''', logEvent = '''', OKKeywords = ''''\<rparr>"
proof -
  let ?data = "''[{\"deviceType\":7,\"deviceName\":\"door\",\"LCDName\":\"Door 1\",\"logEvent\":\"unlock\",\"photoDisplay\":\"no\",\"OKKeywords\":\"staff\"}]''"
  let ?doc = "JArr [JObj [(''deviceType'', JInt 7), (''deviceName'', JStr ''door''),
          (''LCDName'', JStr ''Door 1''), (''logEvent'', JStr ''unlock''),
          (''photoDisplay'', JStr ''no''), (''OKKeywords'', JStr ''staff'')]]"
  have h1: "deserializeJson ref_ext (strcpy_safe 3000 ?data) = (Ok, ?doc)"
    by code_simp
  have h2: "as_int ref_ext (elem0 ref_ext ?doc) ''deviceType''
     = deviceType (EEPROMdata (boot \<lparr>deviceType = 7, lockListenType = 105\<rparr>))"
    by code_simp
  have h3: "as_int ref_ext (elem0 ref_ext ?doc) ''deviceType''
     \<noteq> deviceType (EEPROMdata (boot \<lparr>deviceType = 8, lockListenType = 105\<rparr>))"
    by code_simp
  have v: "\<lparr>isValid = True,
           cfgDeviceType = as_int ref_ext (elem0 ref_ext ?doc) ''deviceType'',
           deviceName = as_str ref_ext (elem0 ref_ext ?doc) ''deviceName'',
           LCDName = as_str ref_ext (elem0 ref_ext ?doc) ''LCDName'',
           photoDisplay = as_str ref_ext (elem0 ref_ext ?doc) ''photoDisplay'',
           logEvent = as_str ref_ext (elem0 ref_ext ?doc) ''logEvent'',
           OKKeywords = as_str ref_ext (elem0 ref_ext ?doc) ''OKKeywords''\<rparr>
     = \<lparr>isValid = True, cfgDeviceType = 7, deviceName = ''door'', LCDName = ''Door 1'',
        photoDisplay = ''no'', logEvent = ''unlock'', OKKeywords = ''staff''\<rparr>"
    by code_simp
  note m = C5_config_handshake [where ext = ref_ext and data = ?data and doc = ?doc
      and event = "''e00fce68fdbGetStationConfig''"
      and s = "boot \<lparr>deviceType = 7, lockListenType = 105\<rparr>",
      THEN conjunct2, THEN conjunct2, THEN conjunct1, THEN mp, OF conjI [OF h1 h2]]
  note n = C5_config_handshake [where ext = ref_ext and data = ?data and doc = ?doc
      and event = "''e00fce68fdbGetStationConfig''"
      and s = "boot \<lparr>deviceType = 8, lockListenType = 105\<rparr>",
      THEN conjunct2, THEN conjunct2, THEN conjunct2, THEN mp, OF conjI [OF h1 h3]]
  show ?thesis
    by (intro conjI) (rule h1 trans [OF m v] n)+
qed

subsection \<open>The remote operations\<close>

lemma rebootSet_1000: "rebootSet t 1000 s = Some (s\<lparr>rebootTime := t + 1000\<rparr>)"
  by (simp add: rebootSet_def)

lemma cloudSetDeviceType_read:
  assumes "toInt ext data = -1"
  shows "cloudSetDeviceType ext t data s =
           Some (deviceType (EEPROMdata s),
             s\<lparr>trace := trace s @ [DebugEvent (''devtypeinput: '' @ String_int (-1)),
                                   BuzzerGoodBeepOnce]\<rparr>)"
  using assms by (simp add: cloudSetDeviceType_def Let_def collaborators emit_def)

lemma cloudSetDeviceType_set:
  assumes "toInt ext data \<noteq> -1" and "toInt ext data \<noteq> 0 \<or> data = ''0''"
  shows "cloudSetDeviceType ext t data s =
           Some (0,
             s\<lparr>trace := trace s @
                  [DebugEvent (''devtypeinput: '' @ String_int (toInt ext data)),
                   LogToDB ''DeviceTypeChange'' (String_int (toInt ext data)) 0 '''' '''',
                   DigitalWrite REJECT_LED HIGH],
               eeprom := (EEPROMdata s)\<lparr>deviceType := toInt ext data\<rparr>,
               rebootTime := t + 1000\<rparr>)"
  using assms
  by (auto simp add: cloudSetDeviceType_def Let_def collaborators emit_def EEPROMWrite_def
      rebootSet_1000)

lemma cloudSetDeviceType_invalid:
  assumes "toInt ext data = 0" and "data \<noteq> ''0''"
  shows "cloudSetDeviceType ext t data s =
           Some (1, s\<lparr>trace := trace s @ [DebugEvent (''devtypeinput: '' @ String_int 0)]\<rparr>)"
  using assms by (simp add: cloudSetDeviceType_def Let_def collaborators emit_def)

lemma cloudSetLockListenDevType_read:
  assumes "toInt ext data = -1"
  shows "cloudSetLockListenDevType ext t data s =
           Some (lockListenType (EEPROMdata s),
             s\<lparr>trace := trace s @ [DebugEvent (''lockListenType: '' @ String_int (-1))]\<rparr>)"
  using assms by (simp add: cloudSetLockListenDevType_def Let_def collaborators emit_def)

lemma cloudSetLockListenDevType_set:
  assumes "toInt ext data \<noteq> -1" and "toInt ext data \<noteq> 0 \<or> data = ''0''"
  shows "cloudSetLockListenDevType ext t data s =
           Some (0,
             s\<lparr>trace := trace s @
                  [DebugEvent (''lockListenType: '' @ String_int (toInt ext data)),
                   LogToDB ''ListenTypeChange'' (String_int (toInt ext data)) 0 '''' ''''],
               eeprom := (EEPROMdata s)\<lparr>lockListenType := toInt ext data\<rparr>,
               rebootTime := t + 1000\<rparr>)"
  using assms
  by (auto simp add: cloudSetLockListenDevType_def Let_def collaborators emit_def
      EEPROMWrite_def rebootSet_1000)

lemma cloudSetLockListenDevType_invalid:
  assumes "toInt ext data = 0" and "data \<noteq> ''0''"
  shows "cloudSetLockListenDevType ext t data s =
           Some (1, s\<lparr>trace := trace s @ [DebugEvent (''lockListenType: '' @ String_int 0)]\<rparr>)"
  using assms by (simp add: cloudSetLockListenDevType_def Let_def collaborators emit_def)

text \<open>
  C7, as stated, fails in both directions. \<open>"00"\<close> is a non-blank numeral other than
  \<open>"-1"\<close>, yet both operations return \<open>1\<close> and store nothing: \<open>toInt\<close> gives \<open>0\<close> and
  only the exact text \<open>"0"\<close> is accepted for zero. \<open>"12abc"\<close> is not a numeral, yet both
  operations store \<open>12\<close> and return \<open>0\<close>: \<open>toInt\<close> reads the leading digits.
\<close>

theorem C7_numeric_input_counterexample:
  "is_numeric ''00'' \<and> ''00'' \<noteq> ''-1''
   \<and> map_option fst (cloudSetDeviceType ref_ext 5000 ''00''
        (boot \<lparr>deviceType = 7, lockListenType = 105\<rparr>)) = Some 1
   \<and> map_option (eeprom \<circ> snd) (cloudSetDeviceType ref_ext 5000 ''00''
        (boot \<lparr>deviceType = 7, lockListenType = 105\<rparr>))
      = Some \<lparr>deviceType = 7, lockListenType = 105\<rparr>
   \<and> map_option fst (cloudSetLockListenDevType ref_ext 5000 ''00''
        (boot \<lparr>deviceType = 7, lockListenType = 105\<rparr>)) = Some 1
   \<and> \<not> is_numeric ''12abc''
   \<and> map_option fst (cloudSetDeviceType ref_ext 5000 ''12abc''
        (boot \<lparr>deviceType = 7, lockListenType = 105\<rparr>)) = Some 0
   \<and> map_option (eeprom \<circ> snd) (cloudSetDeviceType ref_ext 5000 ''12abc''
        (boot \<lparr>deviceType = 7, lockListenType = 105\<rparr>))
      = Some \<lparr>deviceType = 12, lockListenType = 105\<rparr>"
  by code_simp

text \<open>
  C7, amended. With \<open>n\<close> the value \<open>String::toInt\<close> gives for the input, for both
  operations:
  \<^item> \<open>n = -1\<close>: the in-memory value of the field is returned; only the trace changes;
  \<^item> otherwise, \<open>n \<noteq> 0\<close> or the input is exactly \<open>"0"\<close>: \<open>n\<close> is written to durable
    storage, the reboot deadline is set 1000 ms ahead, and \<open>0\<close> is returned;
  \<^item> otherwise (\<open>n = 0\<close> and the input is not \<open>"0"\<close>): \<open>1\<close> is returned; only the trace
    changes.
\<close>

theorem C7_set_type_contract:
  "(toInt ext data = -1 \<longrightarrow>
      cloudSetDeviceType ext t data s =
        Some (deviceType (EEPROMdata s),
          s\<lparr>trace := trace s @ [DebugEvent (''devtypeinput: '' @ String_int (-1)),
                                BuzzerGoodBeepOnce]\<rparr>)
      \<and> cloudSetLockListenDevType ext t data s =
        Some (lockListenType (EEPROMdata s),
          s\<lparr>trace := trace s @ [DebugEvent (''lockListenType: '' @ String_int (-1))]\<rparr>))
   \<and> (toInt ext data \<noteq> -1 \<and> (toInt ext data \<noteq> 0 \<or> data = ''0'') \<longrightarrow>
      cloudSetDeviceType ext t data s =
        Some (0,
          s\<lparr>trace := trace s @
               [DebugEvent (''devtypeinput: '' @ String_int (toInt ext data)),
                LogToDB ''DeviceTypeChange'' (String_int (toInt ext data)) 0 '''' '''',
                DigitalWrite REJECT_LED HIGH],
            eeprom := (EEPROMdata s)\<lparr>deviceType := toInt ext data\<rparr>,
            rebootTime := t + 1000\<rparr>)
      \<and> cloudSetLockListenDevType ext t data s =
        Some (0,
          s\<lparr>trace := trace s @
               [DebugEvent (''lockListenType: '' @ String_int (toInt ext data)),
                LogToDB ''ListenTypeChange'' (String_int (toInt ext data)) 0 '''' ''''],
            eeprom := (EEPROMdata s)\<lparr>lockListenType := toInt ext data\<rparr>,
            rebootTime := t + 1000\<rparr>))
   \<and> (toInt ext data = 0 \<and> data \<noteq> ''0'' \<longrightarrow>
      cloudSetDeviceType ext t data s =
        Some (1, s\<lparr>trace := trace s @ [DebugEvent (''devtypeinput: '' @ String_int 0)]\<rparr>)
      \<and> cloudSetLockListenDevType ext t data s =
        Some (1, s\<lparr>trace := trace s @ [DebugEvent (''lockListenType: '' @ String_int 0)]\<rparr>))"
  using cloudSetDeviceType_read [of ext data t s] cloudSetDeviceType_set [of ext data t s]
    cloudSetDeviceType_invalid [of ext data t s]
    cloudSetLockListenDevType_read [of ext data t s]
    cloudSetLockListenDevType_set [of ext data t s]
    cloudSetLockListenDevType_invalid [of ext data t s]
  by blast

theorem C7_set_type_contract_witness:
  "toInt ref_ext ''-1'' = -1
   \<and> cloudSetDeviceType ref_ext 5000 ''-1'' (boot \<lparr>deviceType = 7, lockListenType = 105\<rparr>) =
       Some (7, (boot \<lparr>deviceType = 7, lockListenType = 105\<rparr>)
                  \<lparr>trace := [DebugEvent ''devtypeinput: -1'', BuzzerGoodBeepOnce]\<rparr>)
   \<and> toInt ref_ext ''0'' = 0
   \<and> cloudSetDeviceType ref_ext 5000 ''0'' (boot \<lparr>deviceType = 7, lockListenType = 105\<rparr>) =
       Some (0, (boot \<lparr>deviceType = 7, lockListenType = 105\<rparr>)
                  \<lparr>trace := [DebugEvent ''devtypeinput: 0'',
                              LogToDB ''DeviceTypeChange'' ''0'' 0 '''' '''',
                              DigitalWrite REJECT_LED HIGH],
                    eeprom := \<lparr>deviceType = 0, lockListenType = 105\<rparr>,
                    rebootTime := 6000\<rparr>)
   \<and> cloudSetLockListenDevType ref_ext 5000 ''0'' (boot \<lparr>deviceType = 7, lockListenType = 105\<rparr>) =
       Some (0, (boot \<lparr>deviceType = 7, lockListenType = 105\<rparr>)
                  \<lparr>trace := [DebugEvent ''lockListenType: 0'',
                              LogToDB ''ListenTypeChange'' ''0'' 0 '''' ''''],
                    eeprom := \<lparr>deviceType = 7, lockListenType = 0\<rparr>,
                    rebootTime := 6000\<rparr>)
   \<and> toInt ref_ext ''abc'' = 0 \<and> ''abc'' \<noteq> ''0''
   \<and> cloudSetDeviceType ref_ext 5000 ''abc'' (boot \<lparr>deviceType = 7, lockListenType = 105\<rparr>) =
       Some (1, (boot \<lparr>deviceType = 7, lockListenType = 105\<rparr>)
                  \<lparr>trace := [DebugEvent ''devtypeinput: 0'']\<rparr>)"
proof -
  let ?s = "boot \<lparr>deviceType = 7, lockListenType = 105\<rparr>"
  have h1: "toInt ref_ext ''-1'' = -1"
    by code_simp
  have h2: "toInt ref_ext ''0'' \<noteq> -1 \<and> (toInt ref_ext ''0'' \<noteq> 0 \<or> ''0'' = ''0'')"
    by code_simp
  have h3: "toInt ref_ext ''abc'' = 0 \<and> ''abc'' \<noteq> ''0''"
    by code_simp
  have v: "toInt ref_ext ''0'' = 0"
    by code_simp
  have d: "String_int (-1) = ''-1''" "String_int 0 = ''0''"
    by code_simp+
  have b: "trace ?s = []" "EEPROMdata ?s = \<lparr>deviceType = 7, lockListenType = 105\<rparr>"
    by (simp_all add: boot_def)
  note r1 = C7_set_type_contract [of ref_ext "''-1''" 5000 ?s, THEN conjunct1, THEN mp, OF h1]
  note r2 = C7_set_type_contract [of ref_ext "''0''" 5000 ?s, THEN conjunct2, THEN conjunct1,
      THEN mp, OF h2]
  note r3 = C7_set_type_contract [of ref_ext "''abc''" 5000 ?s, THEN conjunct2, THEN conjunct2,
      THEN mp, OF h3]
  have e1: "cloudSetDeviceType ref_ext 5000 ''-1'' ?s =
       Some (7, ?s\<lparr>trace := [DebugEvent ''devtypeinput: -1'', BuzzerGoodBeepOnce]\<rparr>)"
    using r1 [THEN conjunct1] by (simp add: d b)
  have e2: "cloudSetDeviceType ref_ext 5000 ''0'' ?s =
       Some (0, ?s\<lparr>trace := [DebugEvent ''devtypeinput: 0'',
                              LogToDB ''DeviceTypeChange'' ''0'' 0 '''' '''',
                              DigitalWrite REJECT_LED HIGH],
                    eeprom := \<lparr>deviceType = 0, lockListenType = 105\<rparr>,
                    rebootTime := 6000\<rparr>)"
    using r2 [THEN conjunct1] by (simp add: v d b)
  have e3: "cloudSetLockListenDevType ref_ext 5000 ''0'' ?s =
       Some (0, ?s\<lparr>trace := [DebugEvent ''lockListenType: 0'',
                              LogToDB ''ListenTypeChange'' ''0'' 0 '''' ''''],
                    eeprom := \<lparr>deviceType = 7, lockListenType = 0\<rparr>,
                    rebootTime := 6000\<rparr>)"
    using r2 [THEN conjunct2] by (simp add: v d b)
  have e4: "cloudSetDeviceType ref_ext 5000 ''abc'' ?s =
       Some (1, ?s\<lparr>trace := [DebugEvent ''devtypeinput: 0'']\<rparr>)"
    using r3 [THEN conjunct1] by (simp add: d b)
  show ?thesis
    using h1 v h3 e1 e2 e3 e4 by blast
qed

text \<open>
  C8. When one of the two operations takes its storing branch, the value read from the
  input is in durable storage when the call returns, and the in-memory identity record
  is the one from before the call.
\<close>

theorem C8_stored_but_not_live:
  assumes "toInt ext data \<noteq> -1" and "toInt ext data \<noteq> 0 \<or> data = ''0''"
  shows "(\<exists>s'. cloudSetDeviceType ext t data s = Some (0, s')
            \<and> deviceType (eeprom s') = toInt ext data
            \<and> EEPROMdata s' = EEPROMdata s)
         \<and> (\<exists>s'. cloudSetLockListenDevType ext t data s = Some (0, s')
            \<and> lockListenType (eeprom s') = toInt ext data
            \<and> EEPROMdata s' = EEPROMdata s)"
  by (simp add: cloudSetDeviceType_set [OF assms] cloudSetLockListenDevType_set [OF assms])

theorem C8_stored_but_not_live_witness:
  "toInt ref_ext ''42'' = 42
   \<and> (\<exists>s'. cloudSetDeviceType ref_ext 5000 ''42'' (boot \<lparr>deviceType = 7, lockListenType = 105\<rparr>)
              = Some (0, s')
            \<and> deviceType (eeprom s') = toInt ref_ext ''42''
            \<and> EEPROMdata s' = EEPROMdata (boot \<lparr>deviceType = 7, lockListenType = 105\<rparr>))
   \<and> (\<exists>s'. cloudSetLockListenDevType ref_ext 5000 ''42''
                (boot \<lparr>deviceType = 7, lockListenType = 105\<rparr>)
              = Some (0, s')
            \<and> lockListenType (eeprom s') = toInt ref_ext ''42''
            \<and> EEPROMdata s' = EEPROMdata (boot \<lparr>deviceType = 7, lockListenType = 105\<rparr>))"
proof -
  have h1: "toInt ref_ext ''42'' \<noteq> -1"
    by code_simp
  have h2: "toInt ref_ext ''42'' \<noteq> 0 \<or> ''42'' = ''0''"
    by code_simp
  have v: "toInt ref_ext ''42'' = 42"
    by code_simp
  note r = C8_stored_but_not_live [OF h1 h2, of 5000 "boot \<lparr>deviceType = 7, lockListenType = 105\<rparr>"]
  show ?thesis
    by (intro conjI) (rule v r [THEN conjunct1] r [THEN conjunct2])+
qed

subsection \<open>The checkin buffer\<close>

lemma emitted_eventcheckin_identity:
  assumes "EEPROMdata s = EEPROMdata s'"
  shows "emitted (eventcheckin ext data) s = emitted (eventcheckin ext data) s'"
  using assms
  by (cases "deserializeJson ext (strcpy_safe 1000 data)")
    (simp add: eventcheckin_def emitted_def collaborators emit_def Let_def)

lemma callback_overrun:
  assumes "0 \<le> indexOf event ''checkin''" and "mg_checkinEventData s \<noteq> ''''"
  shows "particleCallbackEventCheckin t event second s =
           s\<lparr>allowDebugToPublish := t + 500,
             trace := trace s @ [DebugEvent ''checkin buffer overrun'']\<rparr>"
  using assms by (simp add: particleCallbackEventCheckin_def Let_def debugEvent_def emit_def)

lemma loopLockbox_waiting:
  assumes "llbxloopState s = llbxWAITFOREVENTDATA" and "mg_checkinEventData s \<noteq> ''''"
  shows "loopLockbox ext s =
           (eventcheckin ext (mg_checkinEventData s) s)\<lparr>mg_checkinEventData := ''''\<rparr>"
  using assms by (simp add: loopLockbox_def)

text \<open>
  C9, as stated, fails for "the next dispatch-loop tick": the tick must find
  \<open>loopLockbox\<close> in its waiting state. In the run below a lock box starts, receives its
  configuration and enters \<open>mlsDEVICELOOP\<close>; two checkins arrive, the second is dropped
  with the overrun event; the next tick is the first one of \<open>loopLockbox\<close>
  (\<open>llbxINIT\<close>), which only moves to the waiting state: the first message, a valid
  unlock request, is still in the buffer and no actuation has happened. The tick after
  that one processes it.
\<close>

theorem C9_next_tick_counterexample:
  "map_option mg_checkinEventData
     (run ref_ext
        [Tick \<lparr>now = 100, hour = 12, minute = 0, rnd = 70000\<rparr>,
         ConfigEvent 200 ''e00fce68fdbGetStationConfig'' ''[{\"deviceType\":7}]'',
         Tick \<lparr>now = 300, hour = 12, minute = 0, rnd = 70000\<rparr>,
         CheckinEvent 350 ''checkin'' ''{\"deviceType\":105, \"secret\":12345}'',
         CheckinEvent 360 ''checkin'' ''{\"deviceType\":1}'',
         Tick \<lparr>now = 400, hour = 12, minute = 0, rnd = 70000\<rparr>]
        (boot \<lparr>deviceType = 7, lockListenType = 105\<rparr>))
     = Some ''{\"deviceType\":105, \"secret\":12345}''
   \<and> map_option trace
     (run ref_ext
        [Tick \<lparr>now = 100, hour = 12, minute = 0, rnd = 70000\<rparr>,
         ConfigEvent 200 ''e00fce68fdbGetStationConfig'' ''[{\"deviceType\":7}]'',
         Tick \<lparr>now = 300, hour = 12, minute = 0, rnd = 70000\<rparr>,
         CheckinEvent 350 ''checkin'' ''{\"deviceType\":105, \"secret\":12345}'',
         CheckinEvent 360 ''checkin'' ''{\"deviceType\":1}'',
         Tick \<lparr>now = 400, hour = 12, minute = 0, rnd = 70000\<rparr>]
        (boot \<lparr>deviceType = 7, lockListenType = 105\<rparr>))
     = Some [Publish ''fdbGetStationConfig'' ''7'', DebugEvent '''', DebugEvent '''',
             DebugEvent ''checkin buffer overrun'', DebugEvent '''']
   \<and> map_option trace
     (run ref_ext
        [Tick \<lparr>now = 100, hour = 12, minute = 0, rnd = 70000\<rparr>,
         ConfigEvent 200 ''e00fce68fdbGetStationConfig'' ''[{\"deviceType\":7}]'',
         Tick \<lparr>now = 300, hour = 12, minute = 0, rnd = 70000\<rparr>,
         CheckinEvent 350 ''checkin'' ''{\"deviceType\":105, \"secret\":12345}'',
         CheckinEvent 360 ''checkin'' ''{\"deviceType\":1}'',
         Tick \<lparr>now = 400, hour = 12, minute = 0, rnd = 70000\<rparr>,
         Tick \<lparr>now = 410, hour = 12, minute = 0, rnd = 70000\<rparr>]
        (boot \<lparr>deviceType = 7, lockListenType = 105\<rparr>))
     = Some [Publish ''fdbGetStationConfig'' ''7'', DebugEvent '''', DebugEvent '''',
             DebugEvent ''checkin buffer overrun'', DebugEvent '''',
             TripSolenoid,
             LogToDB ''Unlock'' ''Unlocking based on checkin of devType: 7'' 0 '''' '''',
             DebugEvent ''Unlocking based on checkin of devType: 7'', DebugEvent '''']"
  by code_simp

text \<open>
  C9, amended. A checkin notification that arrives while the buffer holds an earlier
  one: the callback leaves the buffer as it is and adds the overrun debug event. The
  first message is processed by the next tick that \<open>loopLockbox\<close> runs in its waiting
  state: that tick runs \<open>eventcheckin\<close> on the first message and then empties the
  buffer, and what it adds to the trace is what \<open>eventcheckin\<close> adds for the first
  message in the state before the second one arrived. A tick of \<open>loop\<close>'s switch in
  \<open>mlsDEVICELOOP\<close> is that tick of \<open>loopLockbox\<close>. The first tick of \<open>loopLockbox\<close>
  (\<open>llbxINIT\<close>) only moves to the waiting state and keeps the buffer.
\<close>

theorem C9_overrun_keeps_first:
  assumes "0 \<le> indexOf event ''checkin''" and "mg_checkinEventData s \<noteq> ''''"
  shows "mg_checkinEventData (particleCallbackEventCheckin t event second s)
           = mg_checkinEventData s
         \<and> emitted (particleCallbackEventCheckin t event second) s
           = [DebugEvent ''checkin buffer overrun'']
         \<and> (llbxloopState s = llbxWAITFOREVENTDATA \<longrightarrow>
              loopLockbox ext (particleCallbackEventCheckin t event second s)
                = (eventcheckin ext (mg_checkinEventData s)
                     (particleCallbackEventCheckin t event second s))
                  \<lparr>mg_checkinEventData := ''''\<rparr>
              \<and> emitted (loopLockbox ext) (particleCallbackEventCheckin t event second s)
                = emitted (eventcheckin ext (mg_checkinEventData s)) s
              \<and> (mainloopState s = mlsDEVICELOOP \<longrightarrow>
                   loop_switch ext tk (particleCallbackEventCheckin t event second s)
                     = loopLockbox ext (particleCallbackEventCheckin t event second s)))
         \<and> (llbxloopState s = llbxINIT \<longrightarrow>
              loopLockbox ext (particleCallbackEventCheckin t event second s)
                = (particleCallbackEventCheckin t event second s)
                  \<lparr>llbxloopState := llbxWAITFOREVENTDATA\<rparr>)"
proof -
  let ?s1 = "particleCallbackEventCheckin t event second s"
  have cb: "?s1 = s\<lparr>allowDebugToPublish := t + 500,
             trace := trace s @ [DebugEvent ''checkin buffer overrun'']\<rparr>"
    by (rule callback_overrun [OF assms])
  have buf: "mg_checkinEventData ?s1 = mg_checkinEventData s"
    by (simp add: cb)
  have ov: "emitted (particleCallbackEventCheckin t event second) s
           = [DebugEvent ''checkin buffer overrun'']"
    by (simp add: emitted_def cb)
  have tick: "loopLockbox ext ?s1
                = (eventcheckin ext (mg_checkinEventData s) ?s1)\<lparr>mg_checkinEventData := ''''\<rparr>"
    if w: "llbxloopState s = llbxWAITFOREVENTDATA"
  proof -
    have "llbxloopState ?s1 = llbxWAITFOREVENTDATA" "mg_checkinEventData ?s1 \<noteq> ''''"
      using w assms(2) by (simp_all add: cb)
    from loopLockbox_waiting [OF this] show ?thesis
      by (simp only: buf)
  qed
  have same: "emitted (loopLockbox ext) ?s1 = emitted (eventcheckin ext (mg_checkinEventData s)) s"
    if w: "llbxloopState s = llbxWAITFOREVENTDATA"
  proof -
    have "emitted (loopLockbox ext) ?s1
            = emitted (eventcheckin ext (mg_checkinEventData s)) ?s1"
      by (simp add: emitted_def tick [OF w])
    also have "\<dots> = emitted (eventcheckin ext (mg_checkinEventData s)) s"
      by (rule emitted_eventcheckin_identity) (simp add: cb)
    finally show ?thesis .
  qed
  have sw: "loop_switch ext tk ?s1 = loopLockbox ext ?s1" if "mainloopState s = mlsDEVICELOOP"
  proof -
    have "mainloopState ?s1 = mlsDEVICELOOP"
      using that by (simp add: cb)
    then show ?thesis
      by (simp add: loop_switch_def)
  qed
  have init: "loopLockbox ext ?s1 = ?s1\<lparr>llbxloopState := llbxWAITFOREVENTDATA\<rparr>"
    if "llbxloopState s = llbxINIT"
  proof -
    have "llbxloopState ?s1 = llbxINIT"
      using that by (simp add: cb)
    then show ?thesis
      by (simp add: loopLockbox_def)
  qed
  show ?thesis
    using buf ov tick same sw init by blast
qed

theorem C9_overrun_keeps_first_witness:
  "0 \<le> indexOf ''checkin'' ''checkin''
   \<and> mg_checkinEventData
        ((boot \<lparr>deviceType = 7, lockListenType = 105\<rparr>)
           \<lparr>mg_checkinEventData := ''{\"deviceType\":105, \"secret\":12345}'',
            llbxloopState := llbxWAITFOREVENTDATA, mainloopState := mlsDEVICELOOP\<rparr>) \<noteq> ''''
   \<and> mg_checkinEventData (particleCallbackEventCheckin 7000 ''checkin'' ''{\"deviceType\":1}''
        ((boot \<lparr>deviceType = 7, lockListenType = 105\<rparr>)
           \<lparr>mg_checkinEventData := ''{\"deviceType\":105, \"secret\":12345}'',
            llbxloopState := llbxWAITFOREVENTDATA, mainloopState := mlsDEVICELOOP\<rparr>))
      = ''{\"deviceType\":105, \"secret\":12345}''
   \<and> emitted (particleCallbackEventCheckin 7000 ''checkin'' ''{\"deviceType\":1}'')
        ((boot \<lparr>deviceType = 7, lockListenType = 105\<rparr>)
           \<lparr>mg_checkinEventData := ''{\"deviceType\":105, \"secret\":12345}'',
            llbxloopState := llbxWAITFOREVENTDATA, mainloopState := mlsDEVICELOOP\<rparr>)
      = [DebugEvent ''checkin buffer overrun'']
   \<and> emitted (loopLockbox ref_ext)
        (particleCallbackEventCheckin 7000 ''checkin'' ''{\"deviceType\":1}''
          ((boot \<lparr>deviceType = 7, lockListenType = 105\<rparr>)
             \<lparr>mg_checkinEventData := ''{\"deviceType\":105, \"secret\":12345}'',
              llbxloopState := llbxWAITFOREVENTDATA, mainloopState := mlsDEVICELOOP\<rparr>))
      = [TripSolenoid,
         LogToDB ''Unlock'' ''Unlocking based on checkin of devType: 7'' 0 '''' '''',
         DebugEvent ''Unlocking based on checkin of devType: 7'']
   \<and> mg_checkinEventData (loopLockbox ref_ext
        (particleCallbackEventCheckin 7000 ''checkin'' ''{\"deviceType\":1}''
          ((boot \<lparr>deviceType = 7, lockListenType = 105\<rparr>)
             \<lparr>mg_checkinEventData := ''{\"deviceType\":105, \"secret\":12345}'',
              llbxloopState := llbxWAITFOREVENTDATA, mainloopState := mlsDEVICELOOP\<rparr>)))
      = ''''"
proof -
  let ?first = "''{\"deviceType\":105, \"secret\":12345}''"
  let ?s = "(boot \<lparr>deviceType = 7, lockListenType = 105\<rparr>)
           \<lparr>mg_checkinEventData := ?first,
            llbxloopState := llbxWAITFOREVENTDATA, mainloopState := mlsDEVICELOOP\<rparr>"
  have h1: "0 \<le> indexOf ''checkin'' ''checkin''"
    by code_simp
  have h2: "mg_checkinEventData ?s \<noteq> ''''"
    by simp
  have w: "llbxloopState ?s = llbxWAITFOREVENTDATA"
    by simp
  have b: "mg_checkinEventData ?s = ?first"
    by simp
  have v: "emitted (eventcheckin ref_ext ?first) ?s
      = [TripSolenoid,
         LogToDB ''Unlock'' ''Unlocking based on checkin of devType: 7'' 0 '''' '''',
         DebugEvent ''Unlocking based on checkin of devType: 7'']"
    by code_simp
  note r = C9_overrun_keeps_first [OF h1 h2, of 7000 "''{\"deviceType\":1}''" ref_ext]
  note r3 = r [THEN conjunct2, THEN conjunct2, THEN conjunct1, THEN mp, OF w]
  have e1: "mg_checkinEventData (particleCallbackEventCheckin 7000 ''checkin'' ''{\"deviceType\":1}'' ?s)
      = ?first"
    using r [THEN conjunct1] by (simp only: b)
  have e2: "emitted (loopLockbox ref_ext)
        (particleCallbackEventCheckin 7000 ''checkin'' ''{\"deviceType\":1}'' ?s)
      = [TripSolenoid,
         LogToDB ''Unlock'' ''Unlocking based on checkin of devType: 7'' 0 '''' '''',
         DebugEvent ''Unlocking based on checkin of devType: 7'']"
    using r3 [THEN conjunct2, THEN conjunct1] by (simp only: b v)
  have e3: "mg_checkinEventData (loopLockbox ref_ext
        (particleCallbackEventCheckin 7000 ''checkin'' ''{\"deviceType\":1}'' ?s)) = ''''"
    by (simp add: r3 [THEN conjunct1])
  show ?thesis
    by (intro conjI) (rule h1 h2 e1 e2 e3 r [THEN conjunct2, THEN conjunct1])+
qed

text \<open>
  C10. A checkin notification with an empty payload that arrives while the buffer is
  empty: the callback stores the empty string, so the buffer is still empty and nothing
  is added to the trace (no overrun event). The next tick of \<open>loopLockbox\<close> finds the
  buffer empty and does not call \<open>eventcheckin\<close>: it adds nothing to the trace (no
  parse-error event) and changes at most its own state variable.
\<close>

theorem C10_empty_payload_is_lost:
  assumes "mg_checkinEventData s = ''''"
  shows "mg_checkinEventData (particleCallbackEventCheckin t event '''' s) = ''''
         \<and> particleCallbackEventCheckin t event '''' s = s\<lparr>allowDebugToPublish := t + 500\<rparr>
         \<and> emitted (particleCallbackEventCheckin t event '''') s = []
         \<and> emitted (loopLockbox ext) (particleCallbackEventCheckin t event '''' s) = []
         \<and> loopLockbox ext (particleCallbackEventCheckin t event '''' s)
           = (particleCallbackEventCheckin t event '''' s)
               \<lparr>llbxloopState :=
                  (if llbxloopState s = llbxINIT then llbxWAITFOREVENTDATA
                   else llbxloopState s)\<rparr>"
proof -
  have cb: "particleCallbackEventCheckin t event '''' s = s\<lparr>allowDebugToPublish := t + 500\<rparr>"
    using assms by (simp add: particleCallbackEventCheckin_def Let_def)
  have lb: "loopLockbox ext (s\<lparr>allowDebugToPublish := t + 500\<rparr>)
           = (s\<lparr>allowDebugToPublish := t + 500\<rparr>)
               \<lparr>llbxloopState :=
                  (if llbxloopState s = llbxINIT then llbxWAITFOREVENTDATA
                   else llbxloopState s)\<rparr>"
    using assms by (cases "llbxloopState s") (simp_all add: loopLockbox_def)
  show ?thesis
    using assms by (simp add: cb lb emitted_def)
qed

theorem C10_empty_payload_is_lost_witness:
  "mg_checkinEventData (boot \<lparr>deviceType = 7, lockListenType = 105\<rparr>) = ''''
   \<and> mg_checkinEventData (particleCallbackEventCheckin 7000 ''checkin'' ''''
        (boot \<lparr>deviceType = 7, lockListenType = 105\<rparr>)) = ''''
   \<and> emitted (particleCallbackEventCheckin 7000 ''checkin'' '''')
        (boot \<lparr>deviceType = 7, lockListenType = 105\<rparr>) = []
   \<and> emitted (loopLockbox ref_ext) (particleCallbackEventCheckin 7000 ''checkin'' ''''
        (boot \<lparr>deviceType = 7, lockListenType = 105\<rparr>)) = []"
proof -
  have h: "mg_checkinEventData (boot \<lparr>deviceType = 7, lockListenType = 105\<rparr>) = ''''"
    by (simp add: boot_def)
  note r = C10_empty_payload_is_lost [OF h, of 7000 "''checkin''" ref_ext]
  show ?thesis
    by (intro conjI)
      (rule h r [THEN conjunct1] r [THEN conjunct2, THEN conjunct2, THEN conjunct1]
        r [THEN conjunct2, THEN conjunct2, THEN conjunct2, THEN conjunct1])+
qed

subsection \<open>The dispatch loop\<close>

lemma rebootSet_keeps:
  assumes "rebootSet t ms s = Some s'"
  shows "mainloopState s' = mainloopState s" and "processStart s' = processStart s"
  using assms by (auto simp add: rebootSet_def split: if_splits)

lemma heartbeatLEDs_keeps:
  "mainloopState (heartbeatLEDs t s) = mainloopState s"
  "processStart (heartbeatLEDs t s) = processStart s"
  by (simp_all add: heartbeatLEDs_def Let_def digitalWrite_def emit_def)

lemma loop_after_switch:
  assumes "loop ext tk s = Some s'"
  shows "mainloopState s' = mainloopState (loop_switch ext tk s)"
    and "processStart s' = processStart (loop_switch ext tk s)"
proof -
  let ?s3 = "debugEvent '''' (heartbeatLEDs (now tk) (loop_switch ext tk s))"
  have k: "mainloopState ?s3 = mainloopState (loop_switch ext tk s)"
    "processStart ?s3 = processStart (loop_switch ext tk s)"
    by (simp_all add: debugEvent_def emit_def heartbeatLEDs_keeps)
  have "mainloopState s' = mainloopState ?s3 \<and> processStart s' = processStart ?s3"
  proof (cases "hour tk = 1 \<and> minute tk = 5")
    case True
    with assms obtain s4 where a: "rebootSet (now tk) (rnd tk) ?s3 = Some s4"
      and b: "rebootSet (now tk) 0 s4 = Some s'"
      by (auto simp add: loop_def Let_def bind_eq_Some_conv)
    show ?thesis
      by (simp add: rebootSet_keeps [OF a] rebootSet_keeps [OF b])
  next
    case False
    with assms have "rebootSet (now tk) 0 ?s3 = Some s'"
      by (auto simp add: loop_def Let_def)
    then show ?thesis
      by (simp add: rebootSet_keeps)
  qed
  then show "mainloopState s' = mainloopState (loop_switch ext tk s)"
    and "processStart s' = processStart (loop_switch ext tk s)"
    by (simp_all add: k)
qed

lemma fdbReceiveStationConfig_keeps:
  "mainloopState (fdbReceiveStationConfig ext event data s) = mainloopState s"
  "processStart (fdbReceiveStationConfig ext event data s) = processStart s"
  by (cases "deserializeJson ext (strcpy_safe 3000 data)";
      simp add: fdbReceiveStationConfig_def Let_def setStationConfig_def debugEvent_def emit_def)+

lemma callbacks_keep:
  "mainloopState (particleCallbackEventCheckin t event data s) = mainloopState s"
  "processStart (particleCallbackEventCheckin t event data s) = processStart s"
  "mainloopState (particleCallbackMNLOGDB ext t event data s) = mainloopState s"
  "processStart (particleCallbackMNLOGDB ext t event data s) = processStart s"
  "mainloopState (snd (cloudTripLock data s)) = mainloopState s"
  "processStart (snd (cloudTripLock data s)) = processStart s"
  by (simp_all add: particleCallbackEventCheckin_def particleCallbackMNLOGDB_def
      cloudTripLock_def Let_def fdbReceiveStationConfig_keeps collaborators emit_def)

lemma cloudSet_keeps:
  assumes "cloudSetDeviceType ext t data s = Some (r, s')
           \<or> cloudSetLockListenDevType ext t data s = Some (r, s')"
  shows "mainloopState s' = mainloopState s" and "processStart s' = processStart s"
  using assms
  by (auto simp add: cloudSetDeviceType_def cloudSetLockListenDevType_def Let_def
      collaborators emit_def EEPROMWrite_def rebootSet_1000 split: if_splits)

text \<open>Only a tick changes the state of the dispatch loop or its time stamp.\<close>

lemma step_not_tick_keeps:
  assumes "step ext c s = Some s'" and "\<forall>tk. c \<noteq> Tick tk"
  shows "mainloopState s' = mainloopState s" and "processStart s' = processStart s"
proof -
  have "mainloopState s' = mainloopState s \<and> processStart s' = processStart s"
  proof (cases c)
    case (Tick tk)
    with assms(2) show ?thesis by simp
  next
    case (CheckinEvent t e d)
    with assms(1) show ?thesis by (auto simp add: callbacks_keep)
  next
    case (ConfigEvent t e d)
    with assms(1) show ?thesis by (auto simp add: callbacks_keep)
  next
    case (SetDeviceType t d)
    with assms(1) obtain r where "cloudSetDeviceType ext t d s = Some (r, s')"
      by auto
    then show ?thesis
      using cloudSet_keeps [of ext t d s r s'] by simp
  next
    case (SetLockListenType t d)
    with assms(1) obtain r where "cloudSetLockListenDevType ext t d s = Some (r, s')"
      by auto
    then show ?thesis
      using cloudSet_keeps [of ext t d s r s'] by simp
  next
    case (TripLock d)
    with assms(1) show ?thesis by (auto simp add: callbacks_keep)
  qed
  then show "mainloopState s' = mainloopState s" and "processStart s' = processStart s"
    by simp_all
qed

lemma timed_out_not_tick:
  assumes "\<forall>tk. c \<noteq> Tick tk"
  shows "timed_out ext (c # cs) s =
           (case step ext c s of None \<Rightarrow> False | Some s' \<Rightarrow> timed_out ext cs s')"
  using assms by (cases c) (simp_all del: step.simps)

lemma tick_waiting:
  assumes "loop ext tk s = Some s'" and "mainloopState s = mlsWAITFORSTATIONCONFIG"
  shows "now tk - processStart s > 20000 \<Longrightarrow> mainloopState s' = mlsERROR"
    and "\<not> now tk - processStart s > 20000 \<Longrightarrow> \<not> isValid (g_stationConfig s) \<Longrightarrow>
         mainloopState s' = mlsWAITFORSTATIONCONFIG \<and> processStart s' = processStart s"
  using assms(2) by (simp_all add: loop_after_switch [OF assms(1)] loop_switch_def)

lemma step_error:
  assumes "step ext c s = Some s'" and "mainloopState s = mlsERROR"
  shows "mainloopState s' = mlsERROR"
proof (cases "\<exists>tk. c = Tick tk")
  case True
  then obtain tk where "c = Tick tk" ..
  with assms show ?thesis
    by (simp add: loop_after_switch loop_switch_def)
next
  case False
  with assms show ?thesis
    by (simp add: step_not_tick_keeps)
qed

lemma run_error:
  assumes "mainloopState s = mlsERROR"
  shows "run ext cs s = None \<or> map_option mainloopState (run ext cs s) = Some mlsERROR"
  using assms
proof (induction cs arbitrary: s)
  case Nil
  then show ?case by simp
next
  case (Cons c cs)
  show ?case
  proof (cases "step ext c s")
    case None
    then show ?thesis by simp
  next
    case (Some s1)
    have "mainloopState s1 = mlsERROR"
      by (rule step_error [OF Some Cons.prems])
    from Cons.IH [OF this] show ?thesis
      by (simp add: Some)
  qed
qed

lemma run_timed_out:
  assumes "mainloopState s = mlsWAITFORSTATIONCONFIG" and "timed_out ext cs s"
  shows "run ext cs s = None \<or> map_option mainloopState (run ext cs s) = Some mlsERROR"
  using assms
proof (induction cs arbitrary: s)
  case Nil
  then show ?case by simp
next
  case (Cons c cs)
  show ?case
  proof (cases "step ext c s")
    case None
    then show ?thesis by simp
  next
    case (Some s1)
    show ?thesis
    proof (cases "\<exists>tk. c = Tick tk")
      case False
      then have nt: "\<forall>tk. c \<noteq> Tick tk" by blast
      have "mainloopState s1 = mlsWAITFORSTATIONCONFIG"
        by (simp add: step_not_tick_keeps [OF Some nt] Cons.prems)
      moreover have "timed_out ext cs s1"
        using Cons.prems(2) by (simp add: timed_out_not_tick [OF nt] Some del: step.simps)
      ultimately show ?thesis
        using Cons.IH [of s1] by (simp add: Some)
    next
      case True
      then obtain tk where c: "c = Tick tk" ..
      then have l: "loop ext tk s = Some s1"
        using Some by simp
      show ?thesis
      proof (cases "now tk - processStart s > 20000")
        case True
        have "mainloopState s1 = mlsERROR"
          by (rule tick_waiting(1) [OF l Cons.prems(1) True])
        from run_error [OF this, of ext cs] show ?thesis
          by (simp add: Some)
      next
        case False
        then have v: "\<not> isValid (g_stationConfig s)" and t: "timed_out ext cs s1"
          using Cons.prems(2) c l by simp_all
        have "mainloopState s1 = mlsWAITFORSTATIONCONFIG"
          using tick_waiting(2) [OF l Cons.prems(1) False v] by simp
        from Cons.IH [OF this t] show ?thesis
          by (simp add: Some)
      qed
    qed
  qed
qed

text \<open>
  C6, as stated, fails in its last part: the Error state is left without any outside
  action. Every tick, in every state, runs the reboot manager. In the run below the
  device asks for its configuration at 1000 ms, times out at the tick at 21001 ms and is
  in \<open>mlsERROR\<close>; the tick at 01:05 sets the reboot deadline 70000 ms ahead, and the tick
  after the deadline calls \<open>System.reset()\<close>: the run ends, and the device starts again in
  \<open>mlsASKFORSTATIONCONFIG\<close>.
\<close>

theorem C6_error_left_by_own_reset_counterexample:
  "map_option mainloopState
     (run ref_ext
        [Tick \<lparr>now = 1000, hour = 1, minute = 4, rnd = 70000\<rparr>,
         Tick \<lparr>now = 21001, hour = 1, minute = 4, rnd = 70000\<rparr>,
         Tick \<lparr>now = 30000, hour = 1, minute = 5, rnd = 70000\<rparr>]
        (boot \<lparr>deviceType = 7, lockListenType = 105\<rparr>)) = Some mlsERROR
   \<and> run ref_ext
        [Tick \<lparr>now = 1000, hour = 1, minute = 4, rnd = 70000\<rparr>,
         Tick \<lparr>now = 21001, hour = 1, minute = 4, rnd = 70000\<rparr>,
         Tick \<lparr>now = 30000, hour = 1, minute = 5, rnd = 70000\<rparr>,
         Tick \<lparr>now = 100001, hour = 1, minute = 6, rnd = 70000\<rparr>]
        (boot \<lparr>deviceType = 7, lockListenType = 105\<rparr>) = None"
  by code_simp

text \<open>
  C6, amended. In a run that starts in the waiting state, has a tick more than 20000 ms
  after the request and has \<open>isValid\<close> false at every tick before it, the loop is in
  \<open>mlsERROR\<close> at the end, unless a call of the run has reset the device; the tick past
  the 20000 ms alone is enough. From \<open>mlsERROR\<close>, every run of ticks, notifications and
  remote operations ends in \<open>mlsERROR\<close> or in a reset of the device: a reset, the
  firmware's own included, is the only way out.
\<close>

theorem C6_timeout_then_error_until_reset:
  "(mainloopState s = mlsWAITFORSTATIONCONFIG \<and> timed_out ext cs s \<longrightarrow>
      run ext cs s = None \<or> map_option mainloopState (run ext cs s) = Some mlsERROR)
   \<and> (mainloopState s = mlsWAITFORSTATIONCONFIG \<and> now tk - processStart s > 20000 \<longrightarrow>
      loop ext tk s = None \<or> map_option mainloopState (loop ext tk s) = Some mlsERROR)
   \<and> (mainloopState s = mlsERROR \<longrightarrow>
      run ext cs s = None \<or> map_option mainloopState (run ext cs s) = Some mlsERROR)"
proof (intro conjI impI)
  assume w: "mainloopState s = mlsWAITFORSTATIONCONFIG \<and> timed_out ext cs s"
  show "run ext cs s = None \<or> map_option mainloopState (run ext cs s) = Some mlsERROR"
    by (rule run_timed_out [OF conjunct1 [OF w] conjunct2 [OF w]])
next
  assume a: "mainloopState s = mlsWAITFORSTATIONCONFIG \<and> now tk - processStart s > 20000"
  show "loop ext tk s = None \<or> map_option mainloopState (loop ext tk s) = Some mlsERROR"
  proof (cases "loop ext tk s")
    case None
    then show ?thesis by simp
  next
    case (Some s1)
    from tick_waiting(1) [OF Some conjunct1 [OF a] conjunct2 [OF a]] show ?thesis
      by (simp add: Some)
  qed
next
  assume "mainloopState s = mlsERROR"
  then show "run ext cs s = None \<or> map_option mainloopState (run ext cs s) = Some mlsERROR"
    by (rule run_error)
qed

theorem C6_timeout_then_error_until_reset_witness:
  "mainloopState ((boot \<lparr>deviceType = 7, lockListenType = 105\<rparr>)
       \<lparr>mainloopState := mlsWAITFORSTATIONCONFIG, processStart := 1000\<rparr>)
     = mlsWAITFORSTATIONCONFIG
   \<and> timed_out ref_ext
       [Tick \<lparr>now = 10000, hour = 1, minute = 4, rnd = 70000\<rparr>,
        ConfigEvent 15000 ''e00fce68fdbGetStationConfig'' ''[{\"deviceType\":8}]'',
        Tick \<lparr>now = 21001, hour = 1, minute = 4, rnd = 70000\<rparr>]
       ((boot \<lparr>deviceType = 7, lockListenType = 105\<rparr>)
          \<lparr>mainloopState := mlsWAITFORSTATIONCONFIG, processStart := 1000\<rparr>)
   \<and> map_option mainloopState (run ref_ext
       [Tick \<lparr>now = 10000, hour = 1, minute = 4, rnd = 70000\<rparr>,
        ConfigEvent 15000 ''e00fce68fdbGetStationConfig'' ''[{\"deviceType\":8}]'',
        Tick \<lparr>now = 21001, hour = 1, minute = 4, rnd = 70000\<rparr>]
       ((boot \<lparr>deviceType = 7, lockListenType = 105\<rparr>)
          \<lparr>mainloopState := mlsWAITFORSTATIONCONFIG, processStart := 1000\<rparr>))
     = Some mlsERROR
   \<and> now \<lparr>now = 21001, hour = 1, minute = 4, rnd = 70000\<rparr>
       - processStart ((boot \<lparr>deviceType = 7, lockListenType = 105\<rparr>)
          \<lparr>mainloopState := mlsWAITFORSTATIONCONFIG, processStart := 1000\<rparr>) > 20000
   \<and> map_option mainloopState (loop ref_ext \<lparr>now = 21001, hour = 1, minute = 4, rnd = 70000\<rparr>
       ((boot \<lparr>deviceType = 7, lockListenType = 105\<rparr>)
          \<lparr>mainloopState := mlsWAITFORSTATIONCONFIG, processStart := 1000\<rparr>))
     = Some mlsERROR
   \<and> mainloopState ((boot \<lparr>deviceType = 7, lockListenType = 105\<rparr>)\<lparr>mainloopState := mlsERROR\<rparr>)
     = mlsERROR
   \<and> map_option mainloopState (run ref_ext
       [Tick \<lparr>now = 30000, hour = 1, minute = 5, rnd = 70000\<rparr>,
        CheckinEvent 31000 ''checkin'' ''{\"deviceType\":105, \"secret\":12345}'',
        Tick \<lparr>now = 32000, hour = 1, minute = 5, rnd = 70000\<rparr>]
       ((boot \<lparr>deviceType = 7, lockListenType = 105\<rparr>)\<lparr>mainloopState := mlsERROR\<rparr>))
     = Some mlsERROR"
proof -
  let ?w = "(boot \<lparr>deviceType = 7, lockListenType = 105\<rparr>)
          \<lparr>mainloopState := mlsWAITFORSTATIONCONFIG, processStart := 1000\<rparr>"
  let ?e = "(boot \<lparr>deviceType = 7, lockListenType = 105\<rparr>)\<lparr>mainloopState := mlsERROR\<rparr>"
  let ?t = "\<lparr>now = 21001, hour = 1, minute = 4, rnd = 70000\<rparr>"
  let ?cs = "[Tick \<lparr>now = 10000, hour = 1, minute = 4, rnd = 70000\<rparr>,
        ConfigEvent 15000 ''e00fce68fdbGetStationConfig'' ''[{\"deviceType\":8}]'',
        Tick ?t]"
  let ?ds = "[Tick \<lparr>now = 30000, hour = 1, minute = 5, rnd = 70000\<rparr>,
        CheckinEvent 31000 ''checkin'' ''{\"deviceType\":105, \"secret\":12345}'',
        Tick \<lparr>now = 32000, hour = 1, minute = 5, rnd = 70000\<rparr>]"
  have h1: "mainloopState ?w = mlsWAITFORSTATIONCONFIG"
    by simp
  have h2: "timed_out ref_ext ?cs ?w"
    by code_simp
  have h3: "now ?t - processStart ?w > 20000"
    by simp
  have h4: "mainloopState ?e = mlsERROR"
    by simp
  have n1: "run ref_ext ?cs ?w \<noteq> None"
    by code_simp
  have n2: "loop ref_ext ?t ?w \<noteq> None"
    by code_simp
  have n3: "run ref_ext ?ds ?e \<noteq> None"
    by code_simp
  note r = C6_timeout_then_error_until_reset [of ?w ref_ext ?cs ?t]
  note q = C6_timeout_then_error_until_reset [of ?e ref_ext ?ds ?t]
  have e1: "map_option mainloopState (run ref_ext ?cs ?w) = Some mlsERROR"
    using r [THEN conjunct1, THEN mp, OF conjI [OF h1 h2]] n1 by blast
  have e2: "map_option mainloopState (loop ref_ext ?t ?w) = Some mlsERROR"
    using r [THEN conjunct2, THEN conjunct1, THEN mp, OF conjI [OF h1 h3]] n2 by blast
  have e3: "map_option mainloopState (run ref_ext ?ds ?e) = Some mlsERROR"
    using q [THEN conjunct2, THEN conjunct2, THEN mp, OF h4] n3 by blast
  show ?thesis
    by (intro conjI) (rule h1 h2 h3 h4 e1 e2 e3)+
qed

end
